theory Spec2Isabelle
  imports Complex_Main "HOL-Library.Word"
begin

unbundle bit_operations_syntax

section \<open>Conventions\<close>

text \<open>
  The repository holds two engines. The interpreter (src/interpreter) has the class
  QuantumState, a QuantumCircuit of plain Gate structs and the QuantumDebugger. The library
  (include/OpenQASMCompiler) has the QuantumGate class hierarchy, its own QuantumCircuit,
  the CircuitOptimizer and the QuantumSimulator. Both are embedded below, each from its
  own source file.

  A C++ double is a \<^typ>\<open>real\<close> and a std::complex<double> a \<^typ>\<open>complex\<close>: rounding is
  not modelled. Qubit indices, sizes and loop counters are \<^typ>\<open>nat\<close> (the widths
  considered stay far below the 31 bits at which 1 << n overflows an int). An access the
  source makes outside a vector, and a shift by a negative amount, is undefined behaviour
  in C++; the model returns the error value \<open>undefined_behaviour\<close> there. The values
  \<open>out_of_range\<close> and \<open>runtime_error\<close> are the two exceptions the sources throw. The
  complex numbers of HOL have no NaN and no infinity, and HOL's \<open>x / 0\<close> is 0: where the
  source divides by zero, or takes the square root of a negative number, the call returns
  normally with amplitudes that are NaN or infinite, and the model returns the value
  \<open>not_a_number\<close> in place of a state. A value drawn from a random generator is an input:
  a function \<open>draw\<close> from the position in the sequence of draws to the value drawn.
\<close>

datatype error = out_of_range | runtime_error | undefined_behaviour | not_a_number

text \<open>std::norm of a complex number: the squared magnitude.\<close>

definition cnorm :: "complex \<Rightarrow> real" where
  "cnorm z = (Re z)\<^sup>2 + (Im z)\<^sup>2"

text \<open>The values a loop \<open>for (i = 0; i < bound; i += stride)\<close> gives to i.\<close>

definition strided :: "nat \<Rightarrow> nat \<Rightarrow> nat list" where
  "strided bound stride = map (\<lambda>k. k * stride) [0..<(bound + stride - 1) div stride]"

section \<open>The interpreter's state vector (src/interpreter/quantum_state.cpp)\<close>

record QuantumState =
  num_qubits :: nat
  state :: "complex list"

text \<open>The constructor: a vector of 2^n zeros, with state[0] = 1.\<close>

definition QuantumState_new :: "nat \<Rightarrow> QuantumState" where
  "QuantumState_new n = \<lparr>num_qubits = n, state = (replicate (2 ^ n) 0)[0 := 1]\<rparr>"

text \<open>
  The body of the inner loop of applySingleQubitGate: both amplitudes are read, then both
  are written in place.
\<close>

definition single_pair :: "complex list \<Rightarrow> nat \<Rightarrow> nat \<Rightarrow> complex list \<Rightarrow> complex list" where
  "single_pair matrix idx0 idx1 st =
     (let v0 = st ! idx0; v1 = st ! idx1 in
      (st[idx0 := matrix ! 0 * v0 + matrix ! 1 * v1])
         [idx1 := matrix ! 2 * v0 + matrix ! 3 * v1])"

text \<open>
  applySingleQubitGate: i runs over the multiples of stride = 2^(qubit+1) below 2^n, j over
  0..2^qubit-1. With qubit >= num_qubits the first iteration already reads state[2^qubit],
  outside the vector.
\<close>

definition applySingleQubitGate :: "nat \<Rightarrow> complex list \<Rightarrow> QuantumState \<Rightarrow> error + QuantumState" where
  "applySingleQubitGate qubit matrix s =
     (if qubit < num_qubits s then
        Inr (s\<lparr>state :=
          foldl (\<lambda>st (i, j). single_pair matrix (i + j) (i + j + 2 ^ qubit) st) (state s)
            [(i, j). i \<leftarrow> strided (2 ^ num_qubits s) (2 ^ (qubit + 1)), j \<leftarrow> [0..<2 ^ qubit]]\<rparr>)
      else Inl undefined_behaviour)"

text \<open>The body of the innermost loop of applyTwoQubitGate, a 4x4 matrix in row-major order.\<close>

definition two_quad :: "complex list \<Rightarrow> nat \<Rightarrow> nat \<Rightarrow> nat \<Rightarrow> complex list \<Rightarrow> complex list" where
  "two_quad matrix base mask1 mask2 st =
     (let idx00 = base; idx01 = base + mask1; idx10 = base + mask2; idx11 = base + mask1 + mask2;
          v00 = st ! idx00; v01 = st ! idx01; v10 = st ! idx10; v11 = st ! idx11 in
      (((st[idx00 := matrix ! 0 * v00 + matrix ! 1 * v01 + matrix ! 2 * v10 + matrix ! 3 * v11])
           [idx01 := matrix ! 4 * v00 + matrix ! 5 * v01 + matrix ! 6 * v10 + matrix ! 7 * v11])
           [idx10 := matrix ! 8 * v00 + matrix ! 9 * v01 + matrix ! 10 * v10 + matrix ! 11 * v11])
           [idx11 := matrix ! 12 * v00 + matrix ! 13 * v01 + matrix ! 14 * v10 + matrix ! 15 * v11])"

text \<open>
  applyTwoQubitGate first swaps its two qubit arguments when qubit1 > qubit2, so the
  smaller index always takes the role of qubit1 (mask1, the low bit of the matrix index)
  whatever the order in which the caller passed them. Equal qubits shift by -1; a qubit
  outside the register reads outside the vector.
\<close>

definition applyTwoQubitGate :: "nat \<Rightarrow> nat \<Rightarrow> complex list \<Rightarrow> QuantumState \<Rightarrow> error + QuantumState" where
  "applyTwoQubitGate qubit1 qubit2 matrix s =
     (let q1 = (if qubit1 > qubit2 then qubit2 else qubit1);
          q2 = (if qubit1 > qubit2 then qubit1 else qubit2) in
      if q1 < q2 \<and> q2 < num_qubits s then
        Inr (s\<lparr>state :=
          foldl (\<lambda>st (i, j, k). two_quad matrix (i + j + k * 2 ^ (q1 + 1)) (2 ^ q1) (2 ^ q2) st)
            (state s)
            [(i, j, k). i \<leftarrow> strided (2 ^ num_qubits s) (2 ^ (q2 + 1)), j \<leftarrow> [0..<2 ^ q1],
                        k \<leftarrow> [0..<2 ^ (q2 - q1 - 1)]]\<rparr>)
      else Inl undefined_behaviour)"

definition applyHadamard :: "nat \<Rightarrow> QuantumState \<Rightarrow> error + QuantumState" where
  "applyHadamard qubit s =
     (let inv_sqrt2 = complex_of_real (1 / sqrt 2) in
      applySingleQubitGate qubit [inv_sqrt2, inv_sqrt2, inv_sqrt2, - inv_sqrt2] s)"

definition applyCNOT :: "nat \<Rightarrow> nat \<Rightarrow> QuantumState \<Rightarrow> error + QuantumState" where
  "applyCNOT control target s =
     applyTwoQubitGate control target
       [1, 0, 0, 0,
        0, 1, 0, 0,
        0, 0, 0, 1,
        0, 0, 1, 0] s"

definition applyX :: "nat \<Rightarrow> QuantumState \<Rightarrow> error + QuantumState" where
  "applyX qubit s = applySingleQubitGate qubit [0, 1, 1, 0] s"

definition applyY :: "nat \<Rightarrow> QuantumState \<Rightarrow> error + QuantumState" where
  "applyY qubit s = applySingleQubitGate qubit [0, Complex 0 (- 1), Complex 0 1, 0] s"

definition applyZ :: "nat \<Rightarrow> QuantumState \<Rightarrow> error + QuantumState" where
  "applyZ qubit s = applySingleQubitGate qubit [1, 0, 0, - 1] s"

definition applyRx :: "nat \<Rightarrow> real \<Rightarrow> QuantumState \<Rightarrow> error + QuantumState" where
  "applyRx qubit angle s =
     (let c = cos (angle / 2); sn = sin (angle / 2) in
      applySingleQubitGate qubit
        [complex_of_real c, Complex 0 (- sn), Complex 0 (- sn), complex_of_real c] s)"

definition applyRy :: "nat \<Rightarrow> real \<Rightarrow> QuantumState \<Rightarrow> error + QuantumState" where
  "applyRy qubit angle s =
     (let c = cos (angle / 2); sn = sin (angle / 2) in
      applySingleQubitGate qubit
        [complex_of_real c, complex_of_real (- sn), complex_of_real sn, complex_of_real c] s)"

definition applyRz :: "nat \<Rightarrow> real \<Rightarrow> QuantumState \<Rightarrow> error + QuantumState" where
  "applyRz qubit angle s =
     applySingleQubitGate qubit [exp (Complex 0 (- angle / 2)), 0, 0, exp (Complex 0 (angle / 2))] s"

text \<open>sortQubits: three compare-and-swap steps on (q1, q2), (q2, q3), (q1, q2).\<close>

definition sortQubits :: "nat \<times> nat \<times> nat \<Rightarrow> nat \<times> nat \<times> nat" where
  "sortQubits t =
     (case t of (q1, q2, q3) \<Rightarrow>
        (let (q1, q2) = (if q1 > q2 then (q2, q1) else (q1, q2));
             (q2, q3) = (if q2 > q3 then (q3, q2) else (q2, q3));
             (q1, q2) = (if q1 > q2 then (q2, q1) else (q1, q2))
         in (q1, q2, q3)))"

text \<open>
  The body of the innermost loop of applyThreeQubitGate. The source reads the eight
  amplitudes and then writes only state[idx000] and state[idx001] (rows 0 and 1 of the
  8x8 matrix); the other six rows are a comment ("continue for other indices").
\<close>

definition three_oct :: "complex list \<Rightarrow> nat \<Rightarrow> nat \<Rightarrow> nat \<Rightarrow> nat \<Rightarrow> complex list \<Rightarrow> complex list" where
  "three_oct matrix base mask1 mask2 mask3 st =
     (let idx000 = base; idx001 = base + mask1; idx010 = base + mask2;
          idx011 = base + mask1 + mask2; idx100 = base + mask3; idx101 = base + mask1 + mask3;
          idx110 = base + mask2 + mask3; idx111 = base + mask1 + mask2 + mask3;
          v000 = st ! idx000; v001 = st ! idx001; v010 = st ! idx010; v011 = st ! idx011;
          v100 = st ! idx100; v101 = st ! idx101; v110 = st ! idx110; v111 = st ! idx111 in
      (st[idx000 := matrix ! 0 * v000 + matrix ! 1 * v001 + matrix ! 2 * v010 + matrix ! 3 * v011 +
                    matrix ! 4 * v100 + matrix ! 5 * v101 + matrix ! 6 * v110 + matrix ! 7 * v111])
         [idx001 := matrix ! 8 * v000 + matrix ! 9 * v001 + matrix ! 10 * v010 + matrix ! 11 * v011 +
                    matrix ! 12 * v100 + matrix ! 13 * v101 + matrix ! 14 * v110 + matrix ! 15 * v111])"

definition applyThreeQubitGate :: "nat \<Rightarrow> nat \<Rightarrow> nat \<Rightarrow> complex list \<Rightarrow> QuantumState \<Rightarrow> error + QuantumState" where
  "applyThreeQubitGate qubit1 qubit2 qubit3 matrix s =
     (case sortQubits (qubit1, qubit2, qubit3) of (q1, q2, q3) \<Rightarrow>
      if q1 < q2 \<and> q2 < q3 \<and> q3 < num_qubits s then
        Inr (s\<lparr>state :=
          foldl (\<lambda>st (i, j, k, l).
                   three_oct matrix (i + j + k * 2 ^ (q1 + 1) + l * 2 ^ (q2 + 1))
                     (2 ^ q1) (2 ^ q2) (2 ^ q3) st)
            (state s)
            [(i, j, k, l). i \<leftarrow> strided (2 ^ num_qubits s) (2 ^ (q3 + 1)), j \<leftarrow> [0..<2 ^ q1],
                           k \<leftarrow> [0..<2 ^ (q2 - q1 - 1)], l \<leftarrow> [0..<2 ^ (q3 - q2 - 1)]]\<rparr>)
      else Inl undefined_behaviour)"

text \<open>
  The Toffoli matrix: 64 zeros, ones on the diagonal except at (7,7), then ones at (7,6)
  and (6,7); the diagonal entry (6,6) stays as the first loop set it.
\<close>

definition toffoli_matrix :: "complex list" where
  "toffoli_matrix =
     ((foldl (\<lambda>m i. if i \<noteq> 7 then m[i * 8 + i := 1] else m) (replicate 64 0) [0..<8])
        [7 * 8 + 6 := 1])[6 * 8 + 7 := 1]"

definition applyToffoli :: "nat \<Rightarrow> nat \<Rightarrow> nat \<Rightarrow> QuantumState \<Rightarrow> error + QuantumState" where
  "applyToffoli control1 control2 target s =
     applyThreeQubitGate control1 control2 target toffoli_matrix s"

definition fredkin_matrix :: "complex list" where
  "fredkin_matrix =
     ((foldl (\<lambda>m i. if i \<noteq> 6 \<and> i \<noteq> 7 then m[i * 8 + i := 1] else m) (replicate 64 0) [0..<8])
        [6 * 8 + 6 := 1])[7 * 8 + 7 := 1]"

definition applyFredkin :: "nat \<Rightarrow> nat \<Rightarrow> nat \<Rightarrow> QuantumState \<Rightarrow> error + QuantumState" where
  "applyFredkin control target1 target2 s =
     applyThreeQubitGate control target1 target2 fredkin_matrix s"

text \<open>
  normalize: the square root of the sum of the squared magnitudes, then every amplitude is
  divided by it. The norm is 0 exactly when every amplitude is 0; the source then computes
  0.0 / 0.0 for every component and stores NaN in all of them, without an error. That
  outcome is the value \<open>not_a_number\<close>. (Every later gate and measurement keeps NaN in
  every amplitude: a product with NaN and a quotient by a NaN norm are NaN.)
\<close>

definition normalize :: "QuantumState \<Rightarrow> error + QuantumState" where
  "normalize s =
     (let norm = sqrt (foldl (\<lambda>acc amplitude. acc + cnorm amplitude) 0 (state s)) in
      if norm = 0 \<and> state s \<noteq> [] then Inl not_a_number
      else Inr (s\<lparr>state := map (\<lambda>amplitude. amplitude / complex_of_real norm) (state s)\<rparr>))"

text \<open>
  QuantumState::measure (\<open>qs_measure\<close>; the name \<open>measure\<close> is taken in HOL):
  prob0 sums the squared magnitudes of the amplitudes whose bit is clear. The
  generator is built inside the call from a fresh std::random_device; r is the value
  \<open>dis(gen)\<close> returns. The result is \<open>r > prob0\<close>; the loop zeroes state[i] where
  \<open>((i & mask) == 0) == result\<close>; normalize follows. The function has no throw statement:
  it returns the result together with what normalize left in the state.
\<close>

definition measure_prob0 :: "nat \<Rightarrow> QuantumState \<Rightarrow> real" where
  "measure_prob0 qubit s =
     foldl (\<lambda>prob0 i. if i AND 2 ^ qubit = 0 then prob0 + cnorm (state s ! i) else prob0)
       0 [0..<2 ^ num_qubits s]"

definition collapse :: "nat \<Rightarrow> bool \<Rightarrow> QuantumState \<Rightarrow> QuantumState" where
  "collapse qubit result s =
     s\<lparr>state := foldl (\<lambda>st i. if (i AND 2 ^ qubit = 0) = result then st[i := 0] else st)
                   (state s) [0..<2 ^ num_qubits s]\<rparr>"

definition qs_measure :: "real \<Rightarrow> nat \<Rightarrow> QuantumState \<Rightarrow> bool \<times> (error + QuantumState)" where
  "qs_measure r qubit s =
     (let prob0 = measure_prob0 qubit s;
          result = (r > prob0)
      in (result, normalize (collapse qubit result s)))"

section \<open>The interpreter's circuit (src/interpreter/quantum_circuit.cpp)\<close>

datatype IGateType =
  IG_H | IG_X | IG_Y | IG_Z | IG_CNOT | IG_SWAP | IG_CZ | IG_TOFFOLI | IG_FREDKIN |
  IG_RX | IG_RY | IG_RZ | IG_MEASURE

record Gate =
  gate_type :: IGateType
  qubits :: "nat list"
  angle :: real

record ICircuit =
  ic_num_qubits :: nat
  ic_gates :: "Gate list"

definition ICircuit_new :: "nat \<Rightarrow> ICircuit" where
  "ICircuit_new n = \<lparr>ic_num_qubits = n, ic_gates = []\<rparr>"

text \<open>addGate appends the gate; it checks nothing.\<close>

definition ic_addGate :: "IGateType \<Rightarrow> nat list \<Rightarrow> real \<Rightarrow> ICircuit \<Rightarrow> ICircuit" where
  "ic_addGate t qs a c = c\<lparr>ic_gates := ic_gates c @ [\<lparr>gate_type = t, qubits = qs, angle = a\<rparr>]\<rparr>"

text \<open>
  Modelled from the spec: execute calls state.applySWAP and state.applyCZ, which
  quantum_state.cpp neither declares nor defines. They are taken as the two-qubit
  application of the SWAP and controlled-Z matrices of section 4.3.
\<close>

definition applySWAP :: "nat \<Rightarrow> nat \<Rightarrow> QuantumState \<Rightarrow> error + QuantumState" where
  "applySWAP qubit1 qubit2 s =
     applyTwoQubitGate qubit1 qubit2
       [1, 0, 0, 0,
        0, 0, 1, 0,
        0, 1, 0, 0,
        0, 0, 0, 1] s"

definition applyCZ :: "nat \<Rightarrow> nat \<Rightarrow> QuantumState \<Rightarrow> error + QuantumState" where
  "applyCZ control target s =
     applyTwoQubitGate control target
       [1, 0, 0, 0,
        0, 1, 0, 0,
        0, 0, 1, 0,
        0, 0, 0, - 1] s"

text \<open>gate.qubits[k]: an unchecked read of the gate's qubit vector.\<close>

definition three_args :: "nat list \<Rightarrow> (nat \<Rightarrow> nat \<Rightarrow> nat \<Rightarrow> error + 'a) \<Rightarrow> error + 'a" where
  "three_args qs f = (if 2 < length qs then f (qs ! 0) (qs ! 1) (qs ! 2) else Inl undefined_behaviour)"

definition two_args :: "nat list \<Rightarrow> (nat \<Rightarrow> nat \<Rightarrow> error + 'a) \<Rightarrow> error + 'a" where
  "two_args qs f = (if 1 < length qs then f (qs ! 0) (qs ! 1) else Inl undefined_behaviour)"

definition one_arg :: "nat list \<Rightarrow> (nat \<Rightarrow> error + 'a) \<Rightarrow> error + 'a" where
  "one_arg qs f = (if 0 < length qs then f (qs ! 0) else Inl undefined_behaviour)"

text \<open>
  One iteration of the loop of execute: the switch on gate.type. The second component
  counts the values drawn so far; only MEASURE draws one.
\<close>

fun execute_gate :: "(nat \<Rightarrow> real) \<Rightarrow> Gate \<Rightarrow> QuantumState \<times> nat \<Rightarrow> error + QuantumState \<times> nat" where
  "execute_gate draw g (s, n) =
     (case gate_type g of
        IG_H \<Rightarrow> map_sum id (\<lambda>s'. (s', n)) (one_arg (qubits g) (\<lambda>q. applyHadamard q s))
      | IG_X \<Rightarrow> map_sum id (\<lambda>s'. (s', n)) (one_arg (qubits g) (\<lambda>q. applyX q s))
      | IG_Y \<Rightarrow> map_sum id (\<lambda>s'. (s', n)) (one_arg (qubits g) (\<lambda>q. applyY q s))
      | IG_Z \<Rightarrow> map_sum id (\<lambda>s'. (s', n)) (one_arg (qubits g) (\<lambda>q. applyZ q s))
      | IG_CNOT \<Rightarrow> map_sum id (\<lambda>s'. (s', n)) (two_args (qubits g) (\<lambda>a b. applyCNOT a b s))
      | IG_SWAP \<Rightarrow> map_sum id (\<lambda>s'. (s', n)) (two_args (qubits g) (\<lambda>a b. applySWAP a b s))
      | IG_CZ \<Rightarrow> map_sum id (\<lambda>s'. (s', n)) (two_args (qubits g) (\<lambda>a b. applyCZ a b s))
      | IG_TOFFOLI \<Rightarrow>
          map_sum id (\<lambda>s'. (s', n)) (three_args (qubits g) (\<lambda>a b c. applyToffoli a b c s))
      | IG_FREDKIN \<Rightarrow>
          map_sum id (\<lambda>s'. (s', n)) (three_args (qubits g) (\<lambda>a b c. applyFredkin a b c s))
      | IG_RX \<Rightarrow> map_sum id (\<lambda>s'. (s', n)) (one_arg (qubits g) (\<lambda>q. applyRx q (angle g) s))
      | IG_RY \<Rightarrow> map_sum id (\<lambda>s'. (s', n)) (one_arg (qubits g) (\<lambda>q. applyRy q (angle g) s))
      | IG_RZ \<Rightarrow> map_sum id (\<lambda>s'. (s', n)) (one_arg (qubits g) (\<lambda>q. applyRz q (angle g) s))
      | IG_MEASURE \<Rightarrow>
          one_arg (qubits g)
            (\<lambda>q. map_sum id (\<lambda>s'. (s', Suc n)) (snd (qs_measure (draw n) q s))))"

text \<open>execute: the loop over all the gates of the circuit, first to last.\<close>

fun execute_gates :: "(nat \<Rightarrow> real) \<Rightarrow> Gate list \<Rightarrow> QuantumState \<times> nat \<Rightarrow> error + QuantumState \<times> nat" where
  "execute_gates draw [] sn = Inr sn"
| "execute_gates draw (g # gs) sn =
     (case execute_gate draw g sn of Inl e \<Rightarrow> Inl e | Inr sn' \<Rightarrow> execute_gates draw gs sn')"

definition execute :: "(nat \<Rightarrow> real) \<Rightarrow> ICircuit \<Rightarrow> QuantumState \<Rightarrow> error + QuantumState" where
  "execute draw c s = map_sum id fst (execute_gates draw (ic_gates c) (s, 0))"

section \<open>The debugger (src/interpreter/quantum_debugger.cpp)\<close>

datatype BreakpointType = GATE | STATE | PROBABILITY | CUSTOM

text \<open>
  A breakpoint's condition is a closure. The ones the debugger builds capture \<open>this\<close> and
  read current_gate_index and the debugger's state, so a condition is a function of both.
\<close>

record Breakpoint =
  bp_type :: BreakpointType
  condition :: "int \<Rightarrow> QuantumState \<Rightarrow> bool"
  description :: string

text \<open>
  current_gate_index is an int: a 32-bit word read by \<open>sint\<close>. The debugger holds
  references to the circuit and to the state; the record holds their values.
\<close>

record QuantumDebugger =
  circuit :: ICircuit
  dstate :: QuantumState
  breakpoints :: "Breakpoint list"
  current_gate_index :: "32 word"
  is_running :: bool

definition QuantumDebugger_new :: "ICircuit \<Rightarrow> QuantumState \<Rightarrow> QuantumDebugger" where
  "QuantumDebugger_new c s =
     \<lparr>circuit = c, dstate = s, breakpoints = [], current_gate_index = 0, is_running = False\<rparr>"

text \<open>
  The test \<open>current_gate_index < circuit.getGates().size()\<close> compares an int with a
  size_t: the int is converted to the 64-bit unsigned type (sign extension) first.
\<close>

definition index_below_size :: "32 word \<Rightarrow> nat \<Rightarrow> bool" where
  "index_below_size i n = (unat (scast i :: 64 word) < n)"

text \<open>
  step: inside the test, the gate at current_gate_index is bound to a local reference
  that is never used; the call is \<open>circuit.execute(state)\<close>, the loop over all gates;
  then the index is incremented. updateStateInfo has an empty body.
\<close>

definition step :: "(nat \<Rightarrow> real) \<Rightarrow> QuantumDebugger \<Rightarrow> error + QuantumDebugger" where
  "step draw d =
     (if index_below_size (current_gate_index d) (length (ic_gates (circuit d))) then
        (case execute draw (circuit d) (dstate d) of
           Inl e \<Rightarrow> Inl e
         | Inr s' \<Rightarrow> Inr (d\<lparr>dstate := s', current_gate_index := current_gate_index d + 1\<rparr>))
      else Inr d)"

text \<open>
  getEntanglement: the double loop over all pairs (i, j) of indices, adding
  \<open>|state[i] * state[j]|\<close> where \<open>(i ^ mask1 ^ mask2) == j\<close>.
\<close>

definition getEntanglement :: "nat \<Rightarrow> nat \<Rightarrow> QuantumDebugger \<Rightarrow> real" where
  "getEntanglement qubit1 qubit2 d =
     (let st = state (dstate d); mask1 = 2 ^ qubit1; mask2 = 2 ^ qubit2 in
      foldl (\<lambda>concurrence (i, j).
               if (i XOR mask1 XOR mask2) = j then concurrence + cmod (st ! i * st ! j)
               else concurrence)
        0 [(i, j). i \<leftarrow> [0..<length st], j \<leftarrow> [0..<length st]])"

text \<open>getProbability: the sum of the squared magnitudes where \<open>((i & mask) == 0) == !value\<close>.\<close>

definition getProbability :: "nat \<Rightarrow> bool \<Rightarrow> QuantumDebugger \<Rightarrow> real" where
  "getProbability qubit val d =
     (let st = state (dstate d) in
      foldl (\<lambda>prob i. if (i AND 2 ^ qubit = 0) = (\<not> val) then prob + cnorm (st ! i) else prob)
        0 [0..<length st])"

section \<open>The library's gates and circuit (include/OpenQASMCompiler, quantum_circuit.cpp)\<close>

datatype GateType =
  GT_X | GT_Y | GT_Z | GT_H | GT_S | GT_S_DAG | GT_T | GT_T_DAG |
  GT_RX | GT_RY | GT_RZ | GT_P | GT_U1 | GT_U2 | GT_U3 |
  GT_CNOT | GT_CZ | GT_SWAP | GT_CP | GT_CRX | GT_CRY | GT_CRZ | GT_CU1 | GT_CU2 | GT_CU3 |
  GT_ISWAP | GT_SQISWAP |
  GT_CCX | GT_CCZ | GT_CSWAP |
  GT_SYNC | GT_MEASURE | GT_RESET |
  GT_CUSTOM

text \<open>
  A QuantumGate object, by what its three virtual getters return. The last two fields are
  CustomGate's name and matrix, empty for the other classes.
\<close>

record QuantumGate =
  getType :: GateType
  getQubits :: "nat list"
  getParameters :: "real list"
  getName :: string
  getMatrix :: "complex list list"

definition SingleQubitGate :: "GateType \<Rightarrow> nat \<Rightarrow> QuantumGate" where
  "SingleQubitGate t qubit =
     \<lparr>getType = t, getQubits = [qubit], getParameters = [], getName = [], getMatrix = []\<rparr>"

definition TwoQubitGate :: "GateType \<Rightarrow> nat \<Rightarrow> nat \<Rightarrow> QuantumGate" where
  "TwoQubitGate t control target =
     \<lparr>getType = t, getQubits = [control, target], getParameters = [], getName = [], getMatrix = []\<rparr>"

definition XGate :: "nat \<Rightarrow> QuantumGate" where
  "XGate qubit = SingleQubitGate GT_X qubit"

definition YGate :: "nat \<Rightarrow> QuantumGate" where
  "YGate qubit = SingleQubitGate GT_Y qubit"

definition ZGate :: "nat \<Rightarrow> QuantumGate" where
  "ZGate qubit = SingleQubitGate GT_Z qubit"

definition HGate :: "nat \<Rightarrow> QuantumGate" where
  "HGate qubit = SingleQubitGate GT_H qubit"

definition CNOTGate :: "nat \<Rightarrow> nat \<Rightarrow> QuantumGate" where
  "CNOTGate control target = TwoQubitGate GT_CNOT control target"

definition CZGate :: "nat \<Rightarrow> nat \<Rightarrow> QuantumGate" where
  "CZGate control target = TwoQubitGate GT_CZ control target"

definition SWAPGate :: "nat \<Rightarrow> nat \<Rightarrow> QuantumGate" where
  "SWAPGate qubit1 qubit2 = TwoQubitGate GT_SWAP qubit1 qubit2"

text \<open>RXGate, RYGate, RZGate and PhaseGate: one qubit and the one parameter \<open>{angle}\<close>.\<close>

definition RotationGate :: "GateType \<Rightarrow> nat \<Rightarrow> real \<Rightarrow> QuantumGate" where
  "RotationGate t qubit a =
     \<lparr>getType = t, getQubits = [qubit], getParameters = [a], getName = [], getMatrix = []\<rparr>"

text \<open>CustomGate's constructor stores its four arguments; it has no body.\<close>

definition CustomGate :: "string \<Rightarrow> complex list list \<Rightarrow> nat list \<Rightarrow> real list \<Rightarrow> QuantumGate" where
  "CustomGate name matrix qs params =
     \<lparr>getType = GT_CUSTOM, getQubits = qs, getParameters = params, getName = name,
      getMatrix = matrix\<rparr>"

record QuantumCircuit =
  qc_num_qubits :: nat
  num_classical_bits :: nat
  gates :: "QuantumGate list"
  measurements :: "(nat \<times> nat) list"

definition QuantumCircuit_new :: "nat \<Rightarrow> QuantumCircuit" where
  "QuantumCircuit_new n =
     \<lparr>qc_num_qubits = n, num_classical_bits = 0, gates = [], measurements = []\<rparr>"

text \<open>
  addGate(std::unique_ptr<QuantumGate>): the loop over the gate's qubits throws
  std::out_of_range at the first index that is not below num_qubits; otherwise the gate
  is appended. Nothing else of the gate is read. An exception leaves the circuit as it
  was: the result \<open>Inl\<close> carries no circuit.
\<close>

definition addGate :: "QuantumGate \<Rightarrow> QuantumCircuit \<Rightarrow> error + QuantumCircuit" where
  "addGate gate c =
     (if list_ex (\<lambda>qubit. qubit \<ge> qc_num_qubits c) (getQubits gate) then Inl out_of_range
      else Inr (c\<lparr>gates := gates c @ [gate]\<rparr>))"

section \<open>The optimizer (src/circuit_optimizer.cpp)\<close>

text \<open>The static table cancellation_pairs, an unordered_map from GateType to GateType.\<close>

definition cancellation_pairs :: "GateType \<rightharpoonup> GateType" where
  "cancellation_pairs =
     [GT_X \<mapsto> GT_X, GT_Y \<mapsto> GT_Y, GT_Z \<mapsto> GT_Z, GT_H \<mapsto> GT_H,
      GT_S \<mapsto> GT_S_DAG, GT_S_DAG \<mapsto> GT_S, GT_T \<mapsto> GT_T_DAG, GT_T_DAG \<mapsto> GT_T]"

text \<open>merging_rules: the keys of the outer map with the keys of their inner maps.\<close>

definition merging_rules :: "GateType \<rightharpoonup> GateType list" where
  "merging_rules = [GT_RX \<mapsto> [GT_RX], GT_RY \<mapsto> [GT_RY], GT_RZ \<mapsto> [GT_RZ], GT_P \<mapsto> [GT_P]]"

definition commutation_rules :: "GateType \<rightharpoonup> GateType list" where
  "commutation_rules =
     [GT_X \<mapsto> [GT_Z], GT_Z \<mapsto> [GT_X], GT_H \<mapsto> [GT_X, GT_Z], GT_S \<mapsto> [GT_X], GT_T \<mapsto> [GT_X]]"

text \<open>
  canCancelGates returns false first when the two types differ, then when the qubit
  vectors differ, and last looks the type up in cancellation_pairs.
\<close>

definition canCancelGates :: "QuantumGate \<Rightarrow> QuantumGate \<Rightarrow> bool" where
  "canCancelGates gate1 gate2 =
     (if getType gate1 \<noteq> getType gate2 then False
      else if getQubits gate1 \<noteq> getQubits gate2 then False
      else (case cancellation_pairs (getType gate1) of
              None \<Rightarrow> False
            | Some t \<Rightarrow> t = getType gate2))"

definition canMergeGates :: "QuantumGate \<Rightarrow> QuantumGate \<Rightarrow> bool" where
  "canMergeGates gate1 gate2 =
     (if getType gate1 \<noteq> getType gate2 then False
      else if getQubits gate1 \<noteq> getQubits gate2 then False
      else (case merging_rules (getType gate1) of
              None \<Rightarrow> False
            | Some ts \<Rightarrow> getType gate2 \<in> set ts))"

text \<open>
  mergeGates: nullptr (None) unless canMergeGates holds; otherwise a new rotation gate on
  gate1's first qubit with the sum of the two first parameters. The gates that pass
  canMergeGates are RX, RY, RZ and P gates, which their constructors build with one qubit
  and one parameter.
\<close>

definition mergeGates :: "QuantumGate \<Rightarrow> QuantumGate \<Rightarrow> QuantumGate option" where
  "mergeGates gate1 gate2 =
     (if \<not> canMergeGates gate1 gate2 then None
      else if getType gate1 \<in> {GT_RX, GT_RY, GT_RZ, GT_P} then
        Some (RotationGate (getType gate1) (getQubits gate1 ! 0)
                (getParameters gate1 ! 0 + getParameters gate2 ! 0))
      else None)"

text \<open>
  canCommuteGates returns false when the two gates share a qubit, and otherwise looks
  gate2's type up in the list commutation_rules gives for gate1's type.
\<close>

definition canCommuteGates :: "QuantumGate \<Rightarrow> QuantumGate \<Rightarrow> bool" where
  "canCommuteGates gate1 gate2 =
     (if list_ex (\<lambda>q1. list_ex (\<lambda>q2. q1 = q2) (getQubits gate2)) (getQubits gate1) then False
      else (case commutation_rules (getType gate1) of
              None \<Rightarrow> False
            | Some ts \<Rightarrow> getType gate2 \<in> set ts))"

text \<open>gates.erase(gates.begin() + k).\<close>

definition erase :: "nat \<Rightarrow> 'a list \<Rightarrow> 'a list" where
  "erase k xs = take k xs @ drop (Suc k) xs"

text \<open>
  applyCancellationRules. The inner loop looks for the first j > i with
  canCancelGates(gates[i], gates[j]); no other property of j, or of the gates between i and
  j, is tested. When it finds one it erases gates[j], then gates[i], decrements i and
  breaks, and the outer loop's ++i restores i (for i = 0 the size_t wraps to its maximum
  and back to 0): the scan resumes at the same index of the shortened vector. When there
  is none, i advances.
\<close>

function cancel_loop :: "nat \<Rightarrow> QuantumGate list \<Rightarrow> QuantumGate list" where
  "cancel_loop i gs =
     (if i < length gs then
        (case find (\<lambda>j. canCancelGates (gs ! i) (gs ! j)) [i + 1..<length gs] of
           Some j \<Rightarrow> cancel_loop i (erase i (erase j gs))
         | None \<Rightarrow> cancel_loop (i + 1) gs)
      else gs)"
  by pat_completeness auto
termination
proof (relation "measure (\<lambda>(i, gs). length gs - i)")
  show "wf (measure (\<lambda>(i, gs). length gs - i))" by simp
next
  fix i :: nat and gs :: "QuantumGate list" and j
  assume "i < length gs"
     and "find (\<lambda>j. canCancelGates (gs ! i) (gs ! j)) [i + 1..<length gs] = Some j"
  then have "j \<in> set [i + 1..<length gs]"
    by (auto simp: find_Some_iff)
  then have "i < j" "j < length gs" by auto
  then show "((i, erase i (erase j gs)), (i, gs)) \<in> measure (\<lambda>(i, gs). length gs - i)"
    by (simp add: erase_def)
next
  fix i :: nat and gs :: "QuantumGate list"
  assume "i < length gs"
  then show "((i + 1, gs), (i, gs)) \<in> measure (\<lambda>(i, gs). length gs - i)"
    by simp
qed

declare cancel_loop.simps [simp del]

definition applyCancellationRules :: "QuantumCircuit \<Rightarrow> QuantumCircuit" where
  "applyCancellationRules c = c\<lparr>gates := cancel_loop 0 (gates c)\<rparr>"

text \<open>
  applyMergingRules: the same scan; at the first j > i for which canMergeGates holds and
  mergeGates returns a gate, gates[i] becomes the merged gate and gates[j] is erased.
\<close>

function merge_loop :: "nat \<Rightarrow> QuantumGate list \<Rightarrow> QuantumGate list" where
  "merge_loop i gs =
     (if i < length gs then
        (case find (\<lambda>j. canMergeGates (gs ! i) (gs ! j) \<and> mergeGates (gs ! i) (gs ! j) \<noteq> None)
                [i + 1..<length gs] of
           Some j \<Rightarrow> merge_loop i (erase j (gs[i := the (mergeGates (gs ! i) (gs ! j))]))
         | None \<Rightarrow> merge_loop (i + 1) gs)
      else gs)"
  by pat_completeness auto
termination
proof (relation "measure (\<lambda>(i, gs). length gs - i)")
  show "wf (measure (\<lambda>(i, gs). length gs - i))" by simp
next
  fix i :: nat and gs :: "QuantumGate list" and j
  assume "i < length gs"
     and "find (\<lambda>j. canMergeGates (gs ! i) (gs ! j) \<and> mergeGates (gs ! i) (gs ! j) \<noteq> None)
            [i + 1..<length gs] = Some j"
  then have "j \<in> set [i + 1..<length gs]"
    by (auto simp: find_Some_iff)
  then have "i < j" "j < length gs" by auto
  then show "((i, erase j (gs[i := the (mergeGates (gs ! i) (gs ! j))])), (i, gs))
               \<in> measure (\<lambda>(i, gs). length gs - i)"
    by (simp add: erase_def)
next
  fix i :: nat and gs :: "QuantumGate list"
  assume "i < length gs"
  then show "((i + 1, gs), (i, gs)) \<in> measure (\<lambda>(i, gs). length gs - i)"
    by simp
qed

declare merge_loop.simps [simp del]

definition applyMergingRules :: "QuantumCircuit \<Rightarrow> QuantumCircuit" where
  "applyMergingRules c = c\<lparr>gates := merge_loop 0 (gates c)\<rparr>"

text \<open>
  applyCommutationRules: one sweep \<open>for (i = 0; i < gates.size() - 1; ++i)\<close> that swaps
  gates[i] and gates[i + 1] when canCommuteGates holds. On an empty vector
  \<open>gates.size() - 1\<close> wraps to the largest size_t and the first iteration dereferences
  gates[0]: undefined behaviour.
\<close>

definition applyCommutationRules :: "QuantumCircuit \<Rightarrow> error + QuantumCircuit" where
  "applyCommutationRules c =
     (if gates c = [] then Inl undefined_behaviour
      else Inr (c\<lparr>gates :=
             foldl (\<lambda>gs i. if canCommuteGates (gs ! i) (gs ! (i + 1))
                            then gs[i := gs ! (i + 1), i + 1 := gs ! i] else gs)
               (gates c) [0..<length (gates c) - 1]\<rparr>))"

text \<open>qubit_gates[qubit]: the indices of the gates that act on the qubit, in order.\<close>

definition qubit_gates :: "QuantumGate list \<Rightarrow> nat \<Rightarrow> nat list" where
  "qubit_gates gs qubit =
     [i. i \<leftarrow> [0..<length gs], q \<leftarrow> getQubits (gs ! i), q = qubit]"

text \<open>
  One pass of the for loop inside the while loop of reorderGates: gate i joins the
  current layer when it is unused and no gate before it on one of its qubits is unused;
  used[i] is set at once, so gates later in the same pass see it.
\<close>

definition can_add :: "QuantumGate list \<Rightarrow> bool list \<Rightarrow> nat \<Rightarrow> bool" where
  "can_add gs used i =
     (\<not> list_ex (\<lambda>qubit. list_ex (\<lambda>gate_idx. gate_idx < i \<and> \<not> used ! gate_idx)
                            (qubit_gates gs qubit))
          (getQubits (gs ! i)))"

definition layer_pass :: "QuantumGate list \<Rightarrow> bool list \<Rightarrow> bool list \<times> nat list" where
  "layer_pass gs used =
     foldl (\<lambda>(used, current_layer) i.
              if \<not> used ! i \<and> can_add gs used i then (used[i := True], current_layer @ [i])
              else (used, current_layer))
       (used, []) [0..<length gs]"

text \<open>
  The while loop of reorderGates runs while new_gates is shorter than gates. A result
  \<open>None\<close> stands for a loop that does not end.
\<close>

partial_function (option) reorder_loop ::
  "QuantumGate list \<Rightarrow> bool list \<Rightarrow> QuantumGate list \<Rightarrow> QuantumGate list option" where
  "reorder_loop gs used new_gates =
     (if length new_gates < length gs then
        (case layer_pass gs used of
           (used', current_layer) \<Rightarrow>
             reorder_loop gs used' (new_gates @ map (\<lambda>idx. gs ! idx) current_layer))
      else Some new_gates)"

text \<open>
  reorderGates indexes qubit_gates, a vector of num_qubits entries, by every qubit of every
  gate without a check.
\<close>

definition qubits_in_register :: "QuantumCircuit \<Rightarrow> bool" where
  "qubits_in_register c =
     list_all (\<lambda>g. list_all (\<lambda>qubit. qubit < qc_num_qubits c) (getQubits g)) (gates c)"

definition reorderGates :: "QuantumCircuit \<Rightarrow> (error + QuantumCircuit) option" where
  "reorderGates c =
     (if qubits_in_register c then
        map_option (\<lambda>new_gates. Inr (c\<lparr>gates := new_gates\<rparr>))
          (reorder_loop (gates c) (replicate (length (gates c)) False) [])
      else Some (Inl undefined_behaviour))"

text \<open>
  remapQubits counts the gates on each qubit, sorts the qubits by that count and builds
  the vector remapping. The last loop takes a copy of each gate's qubits
  (\<open>auto qubits = gate->getQubits()\<close>) and writes the remapped indices into that copy,
  which is then dropped: no gate of the circuit changes. qubit_usage is indexed by every
  qubit of every gate without a check.
\<close>

definition remapQubits :: "QuantumCircuit \<Rightarrow> error + QuantumCircuit" where
  "remapQubits c = (if qubits_in_register c then Inr c else Inl undefined_behaviour)"

text \<open>
  optimize(circuit): the five passes in sequence. It takes the circuit and nothing else:
  there is no level argument.
\<close>

definition optimize :: "QuantumCircuit \<Rightarrow> (error + QuantumCircuit) option" where
  "optimize c =
     (case applyCommutationRules (applyMergingRules (applyCancellationRules c)) of
        Inl e \<Rightarrow> Some (Inl e)
      | Inr c1 \<Rightarrow>
          (case reorderGates c1 of
             None \<Rightarrow> None
           | Some (Inl e) \<Rightarrow> Some (Inl e)
           | Some (Inr c2) \<Rightarrow> Some (remapQubits c2)))"

section \<open>The simulator (quantum_simulator.cpp)\<close>

text \<open>The enum NoiseModel of quantum_simulator.hpp.\<close>

datatype NoiseModel =
  NONE | DEPOLARIZING | AMPLITUDE_DAMPING | PHASE_DAMPING | BIT_FLIP | PHASE_FLIP | BIT_PHASE_FLIP

text \<open>
  The constructor takes the number of qubits, a noise model and its parameter, and seeds
  the member rng_ from std::random_device: it has no seed argument. The values
  \<open>dist_(rng_)\<close> then yields are the function \<open>draw\<close> the operations take; rng_pos counts
  how many have been drawn. state_vector always has 2^num_qubits entries.
\<close>

record QuantumSimulator =
  sim_num_qubits :: nat
  state_vector :: "complex list"
  noise_model :: NoiseModel
  noise_parameter :: real
  rng_pos :: nat

definition QuantumSimulator_new :: "nat \<Rightarrow> NoiseModel \<Rightarrow> real \<Rightarrow> QuantumSimulator" where
  "QuantumSimulator_new n model parameter =
     \<lparr>sim_num_qubits = n, state_vector = (replicate (2 ^ n) 0)[0 := 1],
      noise_model = model, noise_parameter = parameter, rng_pos = 0\<rparr>"

text \<open>
  The switch inside the loop of QuantumSimulator::applySingleQubitGate: the new values
  of the amplitudes at i (bit clear) and j (bit set), or None at the default branch,
  which throws std::runtime_error.
\<close>

definition single_qubit_case :: "GateType \<Rightarrow> complex \<Rightarrow> complex \<Rightarrow> (complex \<times> complex) option" where
  "single_qubit_case t a b =
     (if t = GT_X then Some (b, a)
      else if t = GT_Y then Some (\<i> * b, - \<i> * a)
      else if t = GT_Z then Some (a, - b)
      else if t = GT_H then Some ((a + b) / complex_of_real (sqrt 2), (a - b) / complex_of_real (sqrt 2))
      else if t = GT_S then Some (a, \<i> * b)
      else if t = GT_S_DAG then Some (a, - \<i> * b)
      else if t = GT_T then Some (a, Complex (1 / sqrt 2) (1 / sqrt 2) * b)
      else if t = GT_T_DAG then Some (a, Complex (1 / sqrt 2) (- (1 / sqrt 2)) * b)
      else None)"

text \<open>
  applySingleQubitGate copies the vector, and for every index i whose target bit is clear
  reads the old amplitudes at i and j = i | mask and writes the copy. A target outside
  the register makes j an index outside the vector.
\<close>

definition sim_applySingleQubitGate :: "QuantumGate \<Rightarrow> QuantumSimulator \<Rightarrow> error + QuantumSimulator" where
  "sim_applySingleQubitGate gate sim =
     (let target = getQubits gate ! 0; mask = 2 ^ target; old = state_vector sim in
      if \<not> target < sim_num_qubits sim then Inl undefined_behaviour
      else if single_qubit_case (getType gate) 0 0 = None then Inl runtime_error
      else Inr (sim\<lparr>state_vector :=
             foldl (\<lambda>new_state i.
                      if i AND mask = 0 then
                        (case the (single_qubit_case (getType gate) (old ! i) (old ! (i OR mask))) of
                           (x, y) \<Rightarrow> new_state[i := x, i OR mask := y])
                      else new_state)
               old [0..<length old]\<rparr>))"

definition two_qubit_case :: "GateType \<Rightarrow> complex \<Rightarrow> complex \<Rightarrow> (complex \<times> complex) option" where
  "two_qubit_case t a b =
     (if t = GT_CNOT then Some (b, a)
      else if t = GT_SWAP then Some (b, a)
      else if t = GT_CP then Some (a, \<i> * b)
      else None)"

text \<open>
  applyTwoQubitGate visits every index i whose control bit is set, with j = i ^ target_mask.
  With the control outside the register no index is visited.
\<close>

definition sim_applyTwoQubitGate :: "QuantumGate \<Rightarrow> QuantumSimulator \<Rightarrow> error + QuantumSimulator" where
  "sim_applyTwoQubitGate gate sim =
     (let control = getQubits gate ! 0; target = getQubits gate ! 1;
          control_mask = 2 ^ control; target_mask = 2 ^ target; old = state_vector sim in
      if \<not> control < sim_num_qubits sim then Inr sim
      else if \<not> target < sim_num_qubits sim then Inl undefined_behaviour
      else if two_qubit_case (getType gate) 0 0 = None then Inl runtime_error
      else Inr (sim\<lparr>state_vector :=
             foldl (\<lambda>new_state i.
                      if i AND control_mask \<noteq> 0 then
                        (case the (two_qubit_case (getType gate) (old ! i) (old ! (i XOR target_mask))) of
                           (x, y) \<Rightarrow> new_state[i := x, i XOR target_mask := y])
                      else new_state)
               old [0..<length old]\<rparr>))"

definition three_qubit_case :: "GateType \<Rightarrow> complex \<Rightarrow> complex \<Rightarrow> (complex \<times> complex) option" where
  "three_qubit_case t a b =
     (if t = GT_CCX then Some (b, a)
      else if t = GT_CCZ then Some (a, - b)
      else if t = GT_CSWAP then Some (b, a)
      else None)"

definition sim_applyThreeQubitGate :: "QuantumGate \<Rightarrow> QuantumSimulator \<Rightarrow> error + QuantumSimulator" where
  "sim_applyThreeQubitGate gate sim =
     (let control1 = getQubits gate ! 0; control2 = getQubits gate ! 1; target = getQubits gate ! 2;
          control1_mask = 2 ^ control1; control2_mask = 2 ^ control2; target_mask = 2 ^ target;
          old = state_vector sim in
      if \<not> (control1 < sim_num_qubits sim \<and> control2 < sim_num_qubits sim) then Inr sim
      else if \<not> target < sim_num_qubits sim then Inl undefined_behaviour
      else if three_qubit_case (getType gate) 0 0 = None then Inl runtime_error
      else Inr (sim\<lparr>state_vector :=
             foldl (\<lambda>new_state i.
                      if i AND control1_mask \<noteq> 0 \<and> i AND control2_mask \<noteq> 0 then
                        (case the (three_qubit_case (getType gate) (old ! i) (old ! (i XOR target_mask))) of
                           (x, y) \<Rightarrow> new_state[i := x, i XOR target_mask := y])
                      else new_state)
               old [0..<length old]\<rparr>))"

text \<open>
  applyParameterizedGate: U1, U2 and U3 on the pair (i, j = i | mask) as above, with the
  gate's parameters; U1Gate, U2Gate and U3Gate carry one, two and three of them.
\<close>

definition parameterized_case ::
  "GateType \<Rightarrow> real list \<Rightarrow> complex \<Rightarrow> complex \<Rightarrow> (complex \<times> complex) option" where
  "parameterized_case t params a b =
     (if t = GT_U1 then Some (a, exp (Complex 0 (params ! 0)) * b)
      else if t = GT_U2 then
        Some ((a + exp (Complex 0 (params ! 1)) * b) / complex_of_real (sqrt 2),
              (exp (Complex 0 (params ! 0)) * a - exp (Complex 0 (params ! 0 + params ! 1)) * b)
                / complex_of_real (sqrt 2))
      else if t = GT_U3 then
        Some (complex_of_real (cos (params ! 0 / 2)) * a
                - exp (Complex 0 (params ! 2)) * complex_of_real (sin (params ! 0 / 2)) * b,
              exp (Complex 0 (params ! 1)) * complex_of_real (sin (params ! 0 / 2)) * a
                + exp (Complex 0 (params ! 1 + params ! 2)) * complex_of_real (cos (params ! 0 / 2)) * b)
      else None)"

definition sim_applyParameterizedGate :: "QuantumGate \<Rightarrow> QuantumSimulator \<Rightarrow> error + QuantumSimulator" where
  "sim_applyParameterizedGate gate sim =
     (let target = getQubits gate ! 0; mask = 2 ^ target; old = state_vector sim in
      if \<not> target < sim_num_qubits sim then Inl undefined_behaviour
      else if parameterized_case (getType gate) (getParameters gate) 0 0 = None then Inl runtime_error
      else Inr (sim\<lparr>state_vector :=
             foldl (\<lambda>new_state i.
                      if i AND mask = 0 then
                        (case the (parameterized_case (getType gate) (getParameters gate)
                                     (old ! i) (old ! (i OR mask))) of
                           (x, y) \<Rightarrow> new_state[i := x, i OR mask := y])
                      else new_state)
               old [0..<length old]\<rparr>))"

text \<open>
  normalizeState: as QuantumState::normalize. When the norm is 0 the source divides 0.0 by
  0.0 and every amplitude becomes NaN: the value \<open>not_a_number\<close>.
\<close>

definition normalizeState :: "QuantumSimulator \<Rightarrow> error + QuantumSimulator" where
  "normalizeState sim =
     (let norm = sqrt (foldl (\<lambda>acc amplitude. acc + cnorm amplitude) 0 (state_vector sim)) in
      if norm = 0 \<and> state_vector sim \<noteq> [] then Inl not_a_number
      else Inr (sim\<lparr>state_vector :=
                  map (\<lambda>amplitude. amplitude / complex_of_real norm) (state_vector sim)\<rparr>))"

text \<open>\<open>dist_(rng_)\<close>: the next value of the sequence, and the generator advanced.\<close>

definition next_draw :: "(nat \<Rightarrow> real) \<Rightarrow> QuantumSimulator \<Rightarrow> real \<times> QuantumSimulator" where
  "next_draw draw sim = (draw (rng_pos sim), sim\<lparr>rng_pos := Suc (rng_pos sim)\<rparr>)"

definition applyDepolarizingNoise :: "(nat \<Rightarrow> real) \<Rightarrow> nat \<Rightarrow> QuantumSimulator \<Rightarrow> error + QuantumSimulator" where
  "applyDepolarizingNoise draw qubit sim =
     (case next_draw draw sim of (r0, sim1) \<Rightarrow>
        if r0 < noise_parameter sim then
          (case next_draw draw sim1 of (r, sim2) \<Rightarrow>
             if r < 1 / 3 then sim_applySingleQubitGate (XGate qubit) sim2
             else if r < 2 / 3 then sim_applySingleQubitGate (YGate qubit) sim2
             else sim_applySingleQubitGate (ZGate qubit) sim2)
        else Inr sim1)"

text \<open>
  applyAmplitudeDampingNoise: with a draw below gamma, every amplitude whose bit is set
  becomes 0; nothing is moved to the other component and nothing is rescaled here.
\<close>

definition applyAmplitudeDampingNoise :: "(nat \<Rightarrow> real) \<Rightarrow> nat \<Rightarrow> QuantumSimulator \<Rightarrow> error + QuantumSimulator" where
  "applyAmplitudeDampingNoise draw qubit sim =
     (case next_draw draw sim of (r, sim1) \<Rightarrow>
        if r < noise_parameter sim then
          Inr (sim1\<lparr>state_vector :=
                 foldl (\<lambda>st i. if i AND 2 ^ qubit \<noteq> 0 then st[i := 0] else st)
                   (state_vector sim1) [0..<length (state_vector sim1)]\<rparr>)
        else Inr sim1)"

definition applyPhaseDampingNoise :: "(nat \<Rightarrow> real) \<Rightarrow> nat \<Rightarrow> QuantumSimulator \<Rightarrow> error + QuantumSimulator" where
  "applyPhaseDampingNoise draw qubit sim =
     (case next_draw draw sim of (r, sim1) \<Rightarrow>
        if r < noise_parameter sim then
          Inr (sim1\<lparr>state_vector :=
                 foldl (\<lambda>st i. if i AND 2 ^ qubit \<noteq> 0 then st[i := st ! i * (- 1)] else st)
                   (state_vector sim1) [0..<length (state_vector sim1)]\<rparr>)
        else Inr sim1)"

definition applyBitFlipNoise :: "(nat \<Rightarrow> real) \<Rightarrow> nat \<Rightarrow> QuantumSimulator \<Rightarrow> error + QuantumSimulator" where
  "applyBitFlipNoise draw qubit sim =
     (case next_draw draw sim of (r, sim1) \<Rightarrow>
        if r < noise_parameter sim then sim_applySingleQubitGate (XGate qubit) sim1 else Inr sim1)"

definition applyPhaseFlipNoise :: "(nat \<Rightarrow> real) \<Rightarrow> nat \<Rightarrow> QuantumSimulator \<Rightarrow> error + QuantumSimulator" where
  "applyPhaseFlipNoise draw qubit sim =
     (case next_draw draw sim of (r, sim1) \<Rightarrow>
        if r < noise_parameter sim then sim_applySingleQubitGate (ZGate qubit) sim1 else Inr sim1)"

definition applyBitPhaseFlipNoise :: "(nat \<Rightarrow> real) \<Rightarrow> nat \<Rightarrow> QuantumSimulator \<Rightarrow> error + QuantumSimulator" where
  "applyBitPhaseFlipNoise draw qubit sim =
     (case next_draw draw sim of (r, sim1) \<Rightarrow>
        if r < noise_parameter sim then sim_applySingleQubitGate (YGate qubit) sim1 else Inr sim1)"

definition applyNoise :: "(nat \<Rightarrow> real) \<Rightarrow> nat \<Rightarrow> QuantumSimulator \<Rightarrow> error + QuantumSimulator" where
  "applyNoise draw qubit sim =
     (case noise_model sim of
        DEPOLARIZING \<Rightarrow> applyDepolarizingNoise draw qubit sim
      | AMPLITUDE_DAMPING \<Rightarrow> applyAmplitudeDampingNoise draw qubit sim
      | PHASE_DAMPING \<Rightarrow> applyPhaseDampingNoise draw qubit sim
      | BIT_FLIP \<Rightarrow> applyBitFlipNoise draw qubit sim
      | PHASE_FLIP \<Rightarrow> applyPhaseFlipNoise draw qubit sim
      | BIT_PHASE_FLIP \<Rightarrow> applyBitPhaseFlipNoise draw qubit sim
      | NONE \<Rightarrow> Inr sim)"

text \<open>The loop \<open>for (size_t qubit : gate->getQubits()) applyNoise(qubit)\<close>.\<close>

fun noise_on_qubits :: "(nat \<Rightarrow> real) \<Rightarrow> nat list \<Rightarrow> QuantumSimulator \<Rightarrow> error + QuantumSimulator" where
  "noise_on_qubits draw [] sim = Inr sim"
| "noise_on_qubits draw (qubit # qs) sim =
     (case applyNoise draw qubit sim of
        Inl e \<Rightarrow> Inl e
      | Inr sim' \<Rightarrow> noise_on_qubits draw qs sim')"

text \<open>
  The switch of simulate on the gate's type; every type outside the four groups reaches
  the default branch, which throws std::runtime_error.
\<close>

definition dispatch_gate :: "QuantumGate \<Rightarrow> QuantumSimulator \<Rightarrow> error + QuantumSimulator" where
  "dispatch_gate gate sim =
     (if getType gate \<in> {GT_X, GT_Y, GT_Z, GT_H, GT_S, GT_S_DAG, GT_T, GT_T_DAG} then
        sim_applySingleQubitGate gate sim
      else if getType gate \<in> {GT_CNOT, GT_SWAP, GT_CP, GT_CRX, GT_CRY, GT_CRZ, GT_CU1, GT_CU2,
                               GT_CU3, GT_ISWAP, GT_SQISWAP} then
        sim_applyTwoQubitGate gate sim
      else if getType gate \<in> {GT_CCX, GT_CCZ, GT_CSWAP} then
        sim_applyThreeQubitGate gate sim
      else if getType gate \<in> {GT_U1, GT_U2, GT_U3} then
        sim_applyParameterizedGate gate sim
      else Inl runtime_error)"

fun simulate_gates :: "(nat \<Rightarrow> real) \<Rightarrow> QuantumGate list \<Rightarrow> QuantumSimulator \<Rightarrow> error + QuantumSimulator" where
  "simulate_gates draw [] sim = Inr sim"
| "simulate_gates draw (gate # gs) sim =
     (case dispatch_gate gate sim of
        Inl e \<Rightarrow> Inl e
      | Inr sim1 \<Rightarrow>
          (case (if noise_model sim1 \<noteq> NONE then noise_on_qubits draw (getQubits gate) sim1
                 else Inr sim1) of
             Inl e \<Rightarrow> Inl e
           | Inr sim2 \<Rightarrow> simulate_gates draw gs sim2))"

text \<open>simulate: the loop over the circuit's gates, then normalizeState. shots is not read.\<close>

definition simulate :: "(nat \<Rightarrow> real) \<Rightarrow> QuantumCircuit \<Rightarrow> QuantumSimulator \<Rightarrow> error + QuantumSimulator" where
  "simulate draw c sim =
     (case simulate_gates draw (gates c) sim of
        Inl e \<Rightarrow> Inl e
      | Inr sim' \<Rightarrow> normalizeState sim')"

text \<open>
  QuantumSimulator::measure throws std::out_of_range for an index outside the register;
  it has no other throw. probability sums the squared magnitudes where the bit is set;
  the result is \<open>dist_(rng_) < probability\<close>; the loop divides the amplitudes that agree
  with the result by sqrt(probability), or by sqrt(1 - probability) for result false, and
  zeroes the others. When the number under the square root is 0 or negative the amplitudes
  divided become NaN or infinite: the value \<open>not_a_number\<close>. (The constructor gives the
  state 2^num_qubits amplitudes, so that some amplitude is divided for either result. For
  a draw in [0, 1) and a state of squared norm 1 the case does not arise: result true needs
  probability above the draw, and result false needs probability at most the draw, which
  is below 1.)
\<close>

definition measure_probability :: "nat \<Rightarrow> QuantumSimulator \<Rightarrow> real" where
  "measure_probability qubit_index sim =
     foldl (\<lambda>probability i.
              if i AND 2 ^ qubit_index \<noteq> 0 then probability + cnorm (state_vector sim ! i)
              else probability)
       0 [0..<length (state_vector sim)]"

definition sim_measure :: "(nat \<Rightarrow> real) \<Rightarrow> nat \<Rightarrow> QuantumSimulator \<Rightarrow> error + bool \<times> QuantumSimulator" where
  "sim_measure draw qubit_index sim =
     (if qubit_index \<ge> sim_num_qubits sim then Inl out_of_range
      else
        (let probability = measure_probability qubit_index sim in
         case next_draw draw sim of (r, sim1) \<Rightarrow>
           (let result = (r < probability) in
            if (if result then probability else 1 - probability) \<le> 0 then Inl not_a_number
            else
              Inr (result,
                   sim1\<lparr>state_vector :=
                     foldl (\<lambda>st i.
                              if i AND 2 ^ qubit_index \<noteq> 0 then
                                st[i := (if result then st ! i / complex_of_real (sqrt probability)
                                         else 0)]
                              else
                                st[i := (if \<not> result
                                         then st ! i / complex_of_real (sqrt (1 - probability))
                                         else 0)])
                       (state_vector sim1) [0..<length (state_vector sim1)]\<rparr>))))"

text \<open>The squared magnitudes of the amplitudes: the distribution of the measurement outcomes.\<close>

definition outcome_distribution :: "QuantumSimulator \<Rightarrow> real list" where
  "outcome_distribution sim = map cnorm (state_vector sim)"

text \<open>
  The probability of an outcome of QuantumSimulator::measure as the state holds it: the
  sum of the squared magnitudes of the amplitudes whose bit agrees with the outcome.
\<close>

definition sim_outcome_probability :: "nat \<Rightarrow> bool \<Rightarrow> QuantumSimulator \<Rightarrow> real" where
  "sim_outcome_probability qubit_index result sim =
     sum_list (map (\<lambda>i. if (i AND 2 ^ qubit_index \<noteq> 0) = result
                         then cnorm (state_vector sim ! i) else 0)
                 [0..<length (state_vector sim)])"

text \<open>
  The probability of an outcome of QuantumState::measure as the state holds it: the sum
  of the squared magnitudes of the amplitudes that the collapse for that outcome keeps.
\<close>

definition outcome_probability :: "nat \<Rightarrow> bool \<Rightarrow> QuantumState \<Rightarrow> real" where
  "outcome_probability qubit result s =
     sum_list (map (\<lambda>i. if (i AND 2 ^ qubit = 0) = result then 0 else cnorm (state s ! i))
                 [0..<2 ^ num_qubits s])"

section \<open>The noise class (quantum_noise.cpp)\<close>

datatype NoiseType =
  NT_DEPOLARIZING | NT_AMPLITUDE_DAMPING | NT_PHASE_DAMPING | NT_BIT_FLIP | NT_PHASE_FLIP |
  NT_BIT_PHASE_FLIP

record QuantumNoise =
  error_rate :: real
  noise_type :: NoiseType
  noise_matrix :: "complex list list"

text \<open>
  initializeNoiseMatrix: noise_matrix becomes a list of rows of two entries each (for an
  error rate between 0 and 1; outside it the source takes the square root of a negative
  number).
\<close>

definition initializeNoiseMatrix :: "QuantumNoise \<Rightarrow> QuantumNoise" where
  "initializeNoiseMatrix n =
     (let e = error_rate n in
      n\<lparr>noise_matrix :=
         (case noise_type n of
            NT_DEPOLARIZING \<Rightarrow>
              [[complex_of_real (sqrt (1 - e)), 0], [0, complex_of_real (sqrt (1 - e))],
               [0, complex_of_real (sqrt (e / 3))], [complex_of_real (sqrt (e / 3)), 0],
               [0, complex_of_real (sqrt (e / 3))], [- complex_of_real (sqrt (e / 3)), 0],
               [complex_of_real (sqrt (e / 3)), 0], [0, - complex_of_real (sqrt (e / 3))]]
          | NT_AMPLITUDE_DAMPING \<Rightarrow>
              [[1, 0], [0, complex_of_real (sqrt (1 - e))], [0, complex_of_real (sqrt e)], [0, 0]]
          | NT_PHASE_DAMPING \<Rightarrow>
              [[1, 0], [0, complex_of_real (sqrt (1 - e))], [0, 0], [0, complex_of_real (sqrt e)]]
          | NT_BIT_FLIP \<Rightarrow>
              [[complex_of_real (sqrt (1 - e)), 0], [0, complex_of_real (sqrt (1 - e))],
               [0, complex_of_real (sqrt e)], [complex_of_real (sqrt e), 0]]
          | NT_PHASE_FLIP \<Rightarrow>
              [[complex_of_real (sqrt (1 - e)), 0], [0, complex_of_real (sqrt (1 - e))],
               [complex_of_real (sqrt e), 0], [0, - complex_of_real (sqrt e)]]
          | NT_BIT_PHASE_FLIP \<Rightarrow>
              [[complex_of_real (sqrt (1 - e)), 0], [0, complex_of_real (sqrt (1 - e))],
               [0, complex_of_real (sqrt e)], [- complex_of_real (sqrt e), 0]])\<rparr>)"

text \<open>The constructor: the given error rate, DEPOLARIZING, and the matrix initialized.\<close>

definition QuantumNoise_new :: "real \<Rightarrow> QuantumNoise" where
  "QuantumNoise_new rate =
     initializeNoiseMatrix \<lparr>error_rate = rate, noise_type = NT_DEPOLARIZING, noise_matrix = []\<rparr>"

text \<open>
  applyKrausOperators: for every operator op, temp_state[i] sums \<open>op[i * size + j] * state[j]\<close>
  over j, and new_state adds temp_state; the state becomes new_state, the sum over all the
  operators, and is not rescaled. Every op is read up to the index size * size - 1, so an
  op with fewer entries is read outside its vector.
\<close>

definition applyKrausOperators :: "complex list \<Rightarrow> complex list list \<Rightarrow> error + complex list" where
  "applyKrausOperators st operators =
     (if list_ex (\<lambda>op. length op < length st * length st) operators then Inl undefined_behaviour
      else Inr (foldl (\<lambda>new_state op.
                  map (\<lambda>i. new_state ! i +
                            foldl (\<lambda>t j. t + op ! (i * length st + j) * st ! j) 0 [0..<length st])
                    [0..<length st])
             (replicate (length st) 0) operators))"

text \<open>
  applyNoise(state, qubit): with a draw below error_rate it calls applyKrausOperators with
  \<open>{noise_matrix}\<close>, which initializes the vector of operators as a copy of noise_matrix:
  the operators are its rows. The qubit is not read. The overloads for two and three
  qubits pass noise_matrix to tensorProduct, whose parameters are vectors of complex
  numbers and not of rows; they are not modelled.
\<close>

definition noise_applyNoise :: "real \<Rightarrow> QuantumNoise \<Rightarrow> complex list \<Rightarrow> nat \<Rightarrow> error + complex list" where
  "noise_applyNoise r n st qubit =
     (if r < error_rate n then applyKrausOperators st (noise_matrix n) else Inr st)"

section \<open>The spec's side of two claims\<close>

text \<open>
  The two conditions section 3 of the spec puts on a Custom gate, written from the spec's
  words for comparison with what addGate tests: the matrix has 2^k rows of 2^k entries
  for a gate on k qubits, and the product of its conjugate transpose with it is the
  identity within 10^-9 in every entry.
\<close>

definition spec_dimension_ok :: "QuantumGate \<Rightarrow> bool" where
  "spec_dimension_ok g =
     (length (getMatrix g) = 2 ^ length (getQubits g)
      \<and> list_all (\<lambda>row. length row = 2 ^ length (getQubits g)) (getMatrix g))"

definition spec_unitary :: "complex list list \<Rightarrow> bool" where
  "spec_unitary m =
     list_all (\<lambda>i. list_all (\<lambda>j.
         cmod (sum_list (map (\<lambda>k. cnj (m ! k ! i) * (m ! k ! j)) [0..<length m])
               - (if i = j then 1 else 0)) \<le> 1 / 10 ^ 9)
       [0..<length m]) [0..<length m]"

text \<open>
  The classes XGate, YGate, ZGate, HGate, SGate, SDagGate, TGate and TDagGate override
  getParameters to return the empty vector: a gate of one of these kinds built by its
  class has no parameters.
\<close>

definition class_parameters :: "QuantumGate \<Rightarrow> bool" where
  "class_parameters g =
     (if getType g \<in> {GT_X, GT_Y, GT_Z, GT_H, GT_S, GT_S_DAG, GT_T, GT_T_DAG}
      then getParameters g = [] else True)"

text \<open>
  The single-qubit cancellation pairs of claim C7: the claim's set of pairs without
  (CNOT,CNOT), (CZ,CZ) and (SWAP,SWAP).
\<close>

definition single_qubit_pairs :: "(GateType \<times> GateType) set" where
  "single_qubit_pairs =
     {(GT_X, GT_X), (GT_Y, GT_Y), (GT_Z, GT_Z), (GT_H, GT_H),
      (GT_S, GT_S_DAG), (GT_T, GT_T_DAG)}"

text \<open>
  One removal of a pair as the amended claim C7 allows it: the gates at i < j act on
  exactly the same qubit list, their kinds form one of the single-qubit pairs, their
  parameters are equal, and both are erased. The relation says nothing about which later
  gate j is and about the gates between i and j.
\<close>

inductive cancel_step :: "QuantumGate list \<Rightarrow> QuantumGate list \<Rightarrow> bool" where
  "i < j \<Longrightarrow> j < length gs \<Longrightarrow> getQubits (gs ! i) = getQubits (gs ! j) \<Longrightarrow>
   (getType (gs ! i), getType (gs ! j)) \<in> single_qubit_pairs \<Longrightarrow>
   getParameters (gs ! i) = getParameters (gs ! j) \<Longrightarrow>
   cancel_step gs (erase i (erase j gs))"

section \<open>Example inputs\<close>

text \<open>Two X gates on qubit 0 of a one-qubit circuit.\<close>

definition xx_circuit :: ICircuit where
  "xx_circuit = ic_addGate IG_X [0] 0 (ic_addGate IG_X [0] 0 (ICircuit_new 1))"

text \<open>The Bell circuit of the interpreter's tests: H on qubit 0, then CNOT(control 0, target 1).\<close>

definition bell_circuit :: ICircuit where
  "bell_circuit = ic_addGate IG_CNOT [0, 1] 0 (ic_addGate IG_H [0] 0 (ICircuit_new 2))"

text \<open>H on qubit 0 and H on qubit 1: the product state of two qubits in state plus.\<close>

definition plus_plus_circuit :: ICircuit where
  "plus_plus_circuit = ic_addGate IG_H [1] 0 (ic_addGate IG_H [0] 0 (ICircuit_new 2))"

text \<open>A debugger that has stepped past the single gate of its circuit.\<close>

definition finished_debugger :: QuantumDebugger where
  "finished_debugger =
     (QuantumDebugger_new (ic_addGate IG_X [0] 0 (ICircuit_new 1)) (QuantumState_new 1))
       \<lparr>current_gate_index := 1\<rparr>"

text \<open>X on qubit 0, CNOT(control 0, target 1), X on qubit 0, on two qubits.\<close>

definition xcx_circuit :: QuantumCircuit where
  "xcx_circuit = \<lparr>qc_num_qubits = 2, num_classical_bits = 0,
                   gates = [XGate 0, CNOTGate 0 1, XGate 0], measurements = []\<rparr>"

definition cnot_circuit :: QuantumCircuit where
  "cnot_circuit = \<lparr>qc_num_qubits = 2, num_classical_bits = 0,
                    gates = [CNOTGate 0 1], measurements = []\<rparr>"

text \<open>Two H gates on qubit 0 of a one-qubit circuit.\<close>

definition hh_circuit :: QuantumCircuit where
  "hh_circuit = \<lparr>qc_num_qubits = 1, num_classical_bits = 0, gates = [HGate 0, HGate 0],
                  measurements = []\<rparr>"

text \<open>The interpreter's circuit of X on qubit 0 followed by a measurement of qubit 0.\<close>

definition x_measure_circuit :: ICircuit where
  "x_measure_circuit = ic_addGate IG_MEASURE [0] 0 (ic_addGate IG_X [0] 0 (ICircuit_new 1))"

text \<open>A single X gate on a one-qubit circuit.\<close>

definition x_circuit :: QuantumCircuit where
  "x_circuit = \<lparr>qc_num_qubits = 1, num_classical_bits = 0, gates = [XGate 0], measurements = []\<rparr>"

text \<open>Sequences of draws: every value 1/4, every value 0.\<close>

definition draws_quarter :: "nat \<Rightarrow> real" where
  "draws_quarter n = 1 / 4"

definition draws_zero :: "nat \<Rightarrow> real" where
  "draws_zero n = 0"

text \<open>An adjacent pair of H gates on qubit 0 followed by an adjacent pair of CNOT gates.\<close>

definition hh_cnot_pair_circuit :: QuantumCircuit where
  "hh_cnot_pair_circuit =
     \<lparr>qc_num_qubits = 2, num_classical_bits = 0,
      gates = [HGate 0, HGate 0, CNOTGate 0 1, CNOTGate 0 1], measurements = []\<rparr>"

text \<open>
  A normalized one-qubit state whose amplitude at index 1 has squared magnitude below
  10^-12: the point of the unit circle with parameter t = 10^-7.
\<close>

definition tiny_amplitude_sim :: QuantumSimulator where
  "tiny_amplitude_sim =
     \<lparr>sim_num_qubits = 1,
      state_vector = [complex_of_real (99999999999999 / 100000000000001),
                      complex_of_real (20000000 / 100000000000001)],
      noise_model = NONE, noise_parameter = 0, rng_pos = 0\<rparr>"

text \<open>The one-qubit state with the amplitudes 3/5 and 4/5.\<close>

definition three_four_five :: QuantumState where
  "three_four_five = \<lparr>num_qubits = 1, state = [complex_of_real (3 / 5), complex_of_real (4 / 5)]\<rparr>"

text \<open>Adjacent equal pairs of CNOT, CZ and SWAP gates on two qubits.\<close>

definition two_qubit_pairs_circuit :: QuantumCircuit where
  "two_qubit_pairs_circuit =
     \<lparr>qc_num_qubits = 2, num_classical_bits = 0,
      gates = [CNOTGate 0 1, CNOTGate 0 1, CZGate 0 1, CZGate 0 1, SWAPGate 0 1, SWAPGate 0 1],
      measurements = []\<rparr>"

text \<open>Custom gates on one qubit: the zero 2x2 matrix, and a 1x1 matrix.\<close>

definition zero_custom_gate :: QuantumGate where
  "zero_custom_gate = CustomGate ''zero'' [[0, 0], [0, 0]] [0] []"

definition small_custom_gate :: QuantumGate where
  "small_custom_gate = CustomGate ''small'' [[1]] [0] []"

section \<open>Evaluation lemmas\<close>

lemma upt_2: "[0..<2] = [0, 1::nat]"
  by (simp add: upt_rec)

lemma replicate_2: "replicate 2 x = [x, x]"
  by (simp add: numeral_2_eq_2)

lemma replicate_4: "replicate 4 x = [x, x, x, x]"
  by (simp add: eval_nat_numeral)

lemma xor_3: "(0::nat) XOR 3 = 3" "Suc 0 XOR 3 = 2" "Suc (Suc 0) XOR 3 = Suc 0"
  "Suc (Suc (Suc 0)) XOR 3 = 0"
  unfolding numeral_2_eq_2[symmetric] numeral_3_eq_3[symmetric] by simp_all

lemma QuantumState_new_1: "QuantumState_new (Suc 0) = \<lparr>num_qubits = Suc 0, state = [1, 0]\<rparr>"
  by (simp add: QuantumState_new_def replicate_2)

lemma QuantumState_new_2: "QuantumState_new 2 = \<lparr>num_qubits = 2, state = [1, 0, 0, 0]\<rparr>"
  by (simp add: QuantumState_new_def replicate_4)

lemma applyX_one_qubit:
  "applyX 0 \<lparr>num_qubits = Suc 0, state = [a, b]\<rparr> = Inr \<lparr>num_qubits = Suc 0, state = [b, a]\<rparr>"
  by (simp add: applyX_def applySingleQubitGate_def strided_def single_pair_def Let_def)

lemma applyHadamard_0_of_2:
  "applyHadamard 0 \<lparr>num_qubits = 2, state = [a, b, c, d]\<rparr> =
     Inr \<lparr>num_qubits = 2,
          state = [complex_of_real (1 / sqrt 2) * a + complex_of_real (1 / sqrt 2) * b,
                   complex_of_real (1 / sqrt 2) * a - complex_of_real (1 / sqrt 2) * b,
                   complex_of_real (1 / sqrt 2) * c + complex_of_real (1 / sqrt 2) * d,
                   complex_of_real (1 / sqrt 2) * c - complex_of_real (1 / sqrt 2) * d]\<rparr>"
  by (simp add: applyHadamard_def applySingleQubitGate_def strided_def upt_2
      single_pair_def Let_def)

lemma applyHadamard_1_of_2:
  "applyHadamard (Suc 0) \<lparr>num_qubits = 2, state = [a, b, c, d]\<rparr> =
     Inr \<lparr>num_qubits = 2,
          state = [complex_of_real (1 / sqrt 2) * a + complex_of_real (1 / sqrt 2) * c,
                   complex_of_real (1 / sqrt 2) * b + complex_of_real (1 / sqrt 2) * d,
                   complex_of_real (1 / sqrt 2) * a - complex_of_real (1 / sqrt 2) * c,
                   complex_of_real (1 / sqrt 2) * b - complex_of_real (1 / sqrt 2) * d]\<rparr>"
  by (simp add: applyHadamard_def applySingleQubitGate_def strided_def upt_2
      single_pair_def Let_def)

lemma applyCNOT_0_1_of_2:
  "applyCNOT 0 (Suc 0) \<lparr>num_qubits = 2, state = [a, b, c, d]\<rparr> =
     Inr \<lparr>num_qubits = 2, state = [a, b, d, c]\<rparr>"
  by (simp add: applyCNOT_def applyTwoQubitGate_def strided_def two_quad_def Let_def)

lemma execute_xx_circuit:
  "execute draw xx_circuit (QuantumState_new (Suc 0)) = Inr \<lparr>num_qubits = Suc 0, state = [1, 0]\<rparr>"
  by (simp add: execute_def xx_circuit_def ic_addGate_def ICircuit_new_def one_arg_def
      QuantumState_new_1 applyX_one_qubit)

lemma execute_bell_circuit:
  "execute draw bell_circuit (QuantumState_new 2) =
     Inr \<lparr>num_qubits = 2,
          state = [complex_of_real (1 / sqrt 2), complex_of_real (1 / sqrt 2), 0, 0]\<rparr>"
  by (simp add: execute_def bell_circuit_def ic_addGate_def ICircuit_new_def one_arg_def
      two_args_def QuantumState_new_2 applyHadamard_0_of_2 applyCNOT_0_1_of_2)

lemma half_sqrt2_sq: "complex_of_real (1 / sqrt 2) * complex_of_real (1 / sqrt 2) = 1 / 2"
proof -
  have "complex_of_real (1 / sqrt 2) * complex_of_real (1 / sqrt 2) =
        complex_of_real ((1 / sqrt 2) * (1 / sqrt 2))"
    by (simp only: of_real_mult)
  also have "(1 / sqrt 2) * (1 / sqrt 2) = (1 / 2 :: real)"
    by (simp add: field_simps)
  finally show ?thesis by simp
qed

lemma applyHadamard_1_after_0:
  "applyHadamard (Suc 0)
     \<lparr>num_qubits = 2, state = [1 / complex_of_real (sqrt 2), 1 / complex_of_real (sqrt 2), 0, 0]\<rparr> =
   Inr \<lparr>num_qubits = 2, state = [1 / 2, 1 / 2, 1 / 2, 1 / 2]\<rparr>"
  unfolding applyHadamard_1_of_2 using half_sqrt2_sq by simp

lemma execute_plus_plus_circuit:
  "execute draw plus_plus_circuit (QuantumState_new 2) =
     Inr \<lparr>num_qubits = 2, state = [1 / 2, 1 / 2, 1 / 2, 1 / 2]\<rparr>"
  by (simp add: execute_def plus_plus_circuit_def ic_addGate_def ICircuit_new_def one_arg_def
      QuantumState_new_2 applyHadamard_0_of_2 applyHadamard_1_after_0)

lemma unat_scast_nonneg:
  fixes w :: "32 word"
  assumes "0 \<le> sint w"
  shows "unat (scast w :: 64 word) = nat (sint w)"
proof -
  have b: "sint w < 2 ^ 31" using sint_lt [of w] by simp
  have "uint (word_of_int (sint w) :: 64 word) = sint w mod 2 ^ LENGTH(64)"
    by (rule uint_word_of_int)
  then have "uint (scast w :: 64 word) = sint w mod 2 ^ 64"
    by (simp only: scast_eq len_num0 len_bit0 len_num1) simp
  also have "\<dots> = sint w" using assms b by simp
  finally show ?thesis by (simp only: unat_eq_nat_uint)
qed

section \<open>The debugger's step\<close>

text \<open>
  C2, evaluated on the code. The claim: each call of step applies exactly the gate at
  current_gate_index and no other gate. On the circuit of two X gates, from the initial
  state of one qubit and index 0, the gate at index 0 alone gives the amplitudes [0, 1];
  step returns the amplitudes [1, 0], the result of both gates, with the index at 1:
  it has run the whole circuit.
\<close>

theorem step_runs_whole_circuit:
  "step draw (QuantumDebugger_new xx_circuit (QuantumState_new 1)) =
     Inr ((QuantumDebugger_new xx_circuit (QuantumState_new 1))
            \<lparr>dstate := \<lparr>num_qubits = 1, state = [1, 0]\<rparr>, current_gate_index := 1\<rparr>)
   \<and> applyX 0 (QuantumState_new 1) = Inr \<lparr>num_qubits = 1, state = [0, 1]\<rparr>"
proof -
  have below: "index_below_size (current_gate_index (QuantumDebugger_new xx_circuit (QuantumState_new 1)))
      (length (ic_gates (circuit (QuantumDebugger_new xx_circuit (QuantumState_new 1)))))"
    by (simp add: QuantumDebugger_new_def index_below_size_def xx_circuit_def ic_addGate_def
        ICircuit_new_def)
  have run: "execute draw (circuit (QuantumDebugger_new xx_circuit (QuantumState_new 1)))
      (dstate (QuantumDebugger_new xx_circuit (QuantumState_new 1))) =
      Inr \<lparr>num_qubits = Suc 0, state = [1, 0]\<rparr>"
    using execute_xx_circuit by (simp add: QuantumDebugger_new_def)
  have "step draw (QuantumDebugger_new xx_circuit (QuantumState_new 1)) =
     Inr ((QuantumDebugger_new xx_circuit (QuantumState_new 1))
            \<lparr>dstate := \<lparr>num_qubits = 1, state = [1, 0]\<rparr>, current_gate_index := 1\<rparr>)"
    unfolding step_def using below run by (simp add: QuantumDebugger_new_def)
  moreover have "applyX 0 (QuantumState_new 1) = Inr \<lparr>num_qubits = 1, state = [0, 1]\<rparr>"
    using applyX_one_qubit [of 1 0] by (simp add: QuantumState_new_1)
  ultimately show ?thesis by simp
qed

text \<open>
  C10: when current_gate_index is greater than or equal to the number of gates of the
  circuit, step changes nothing (the state, the breakpoint list and the index are those
  of the debugger it was called on) and raises no error.
\<close>

theorem step_at_end_is_noop:
  assumes "int (length (ic_gates (circuit d))) \<le> sint (current_gate_index d)"
  shows "step draw d = Inr d"
proof -
  have "0 \<le> sint (current_gate_index d)" using assms by linarith
  then have "unat (scast (current_gate_index d) :: 64 word) = nat (sint (current_gate_index d))"
    by (rule unat_scast_nonneg)
  then have "\<not> index_below_size (current_gate_index d) (length (ic_gates (circuit d)))"
    using assms by (simp add: index_below_size_def)
  then show ?thesis by (simp add: step_def)
qed

theorem step_at_end_is_noop_witness:
  "int (length (ic_gates (circuit finished_debugger))) \<le> sint (current_gate_index finished_debugger)
   \<and> step (\<lambda>n. 0) finished_debugger = Inr finished_debugger"
proof -
  have h: "int (length (ic_gates (circuit finished_debugger)))
             \<le> sint (current_gate_index finished_debugger)"
    by (simp add: finished_debugger_def QuantumDebugger_new_def ic_addGate_def ICircuit_new_def)
  show ?thesis using h step_at_end_is_noop [OF h, of "\<lambda>n. 0"] by simp
qed

section \<open>The Bell circuit on the interpreter's state\<close>

text \<open>
  C4, evaluated on the code. The claim: H on qubit 0, then CNOT with control 0 and target
  1, from the initial state of two qubits, gives squared magnitudes 1/2, 0, 0, 1/2 at the
  indices 0, 1, 2, 3. The code gives 1/2, 1/2, 0, 0: applyCNOT's matrix exchanges the
  rows idx10 and idx11, the two indices where the larger qubit (here the target) is set,
  so the CNOT is controlled by qubit 1 and leaves the state after H as it is.
\<close>

theorem bell_circuit_probabilities:
  "map_sum id (\<lambda>s. map cnorm (state s)) (execute draw bell_circuit (QuantumState_new 2)) =
     Inr [1 / 2, 1 / 2, 0, 0]"
  unfolding execute_bell_circuit by (simp add: cnorm_def power_divide)

section \<open>The debugger's entanglement measure\<close>

text \<open>
  C9, evaluated on the code. The claim: getEntanglement is the concurrence, 0 on every
  product state. After H on qubit 0 and H on qubit 1 the two qubits are in the product
  state with the four amplitudes 1/2, and getEntanglement 0 1 returns 1.
\<close>

theorem entanglement_of_product_state:
  "execute draw plus_plus_circuit (QuantumState_new 2) =
     Inr \<lparr>num_qubits = 2, state = [1 / 2, 1 / 2, 1 / 2, 1 / 2]\<rparr>
   \<and> getEntanglement 0 1
       ((QuantumDebugger_new plus_plus_circuit (QuantumState_new 2))
          \<lparr>dstate := \<lparr>num_qubits = 2, state = [1 / 2, 1 / 2, 1 / 2, 1 / 2]\<rparr>\<rparr>) = 1"
proof -
  have "getEntanglement 0 1
       ((QuantumDebugger_new plus_plus_circuit (QuantumState_new 2))
          \<lparr>dstate := \<lparr>num_qubits = 2, state = [1 / 2, 1 / 2, 1 / 2, 1 / 2]\<rparr>\<rparr>) = 1"
    by (simp add: getEntanglement_def QuantumDebugger_new_def Let_def xor_3 norm_mult norm_divide)
  then show ?thesis using execute_plus_plus_circuit by simp
qed

section \<open>The optimizer against the simulator\<close>

lemma and_eval:
  "(0::nat) AND 2 = 0" "Suc 0 AND 2 = 0" "Suc (Suc 0) AND 2 = Suc (Suc 0)"
  "Suc (Suc (Suc 0)) AND 2 = Suc (Suc 0)"
  "(0::nat) AND Suc 0 = 0" "Suc 0 AND Suc 0 = Suc 0" "Suc (Suc 0) AND Suc 0 = 0"
  "Suc (Suc (Suc 0)) AND Suc 0 = Suc 0"
  unfolding numeral_2_eq_2[symmetric] numeral_3_eq_3[symmetric] by simp_all

lemma or_eval:
  "(0::nat) OR 2 = Suc (Suc 0)" "Suc 0 OR 2 = Suc (Suc (Suc 0))"
  "(0::nat) OR Suc 0 = Suc 0" "Suc (Suc 0) OR Suc 0 = Suc (Suc (Suc 0))"
  unfolding numeral_2_eq_2[symmetric] numeral_3_eq_3[symmetric] by simp_all

lemma xor_eval:
  "(0::nat) XOR 2 = Suc (Suc 0)" "Suc 0 XOR 2 = Suc (Suc (Suc 0))"
  "Suc (Suc 0) XOR 2 = 0" "Suc (Suc (Suc 0)) XOR 2 = Suc 0"
  "(0::nat) XOR Suc 0 = Suc 0" "Suc 0 XOR Suc 0 = 0"
  "Suc (Suc 0) XOR Suc 0 = Suc (Suc (Suc 0))" "Suc (Suc (Suc 0)) XOR Suc 0 = Suc (Suc 0)"
  unfolding numeral_2_eq_2[symmetric] numeral_3_eq_3[symmetric] by simp_all

lemma sim_X_0_of_2:
  "sim_applySingleQubitGate (XGate 0)
     \<lparr>sim_num_qubits = 2, state_vector = [a, b, c, d], noise_model = m, noise_parameter = p,
      rng_pos = k\<rparr> =
   Inr \<lparr>sim_num_qubits = 2, state_vector = [b, a, d, c], noise_model = m, noise_parameter = p,
        rng_pos = k\<rparr>"
  by (simp add: sim_applySingleQubitGate_def XGate_def SingleQubitGate_def single_qubit_case_def
      Let_def and_eval or_eval)

lemma sim_CNOT_0_1_of_2:
  "sim_applyTwoQubitGate (CNOTGate 0 (Suc 0))
     \<lparr>sim_num_qubits = 2, state_vector = [a, b, c, d], noise_model = m, noise_parameter = p,
      rng_pos = k\<rparr> =
   Inr \<lparr>sim_num_qubits = 2, state_vector = [a, d, c, b], noise_model = m, noise_parameter = p,
        rng_pos = k\<rparr>"
  by (simp add: sim_applyTwoQubitGate_def CNOTGate_def TwoQubitGate_def two_qubit_case_def
      Let_def and_eval xor_eval)

lemma sim_X_0_of_1:
  "sim_applySingleQubitGate (XGate 0)
     \<lparr>sim_num_qubits = Suc 0, state_vector = [a, b], noise_model = m, noise_parameter = p,
      rng_pos = k\<rparr> =
   Inr \<lparr>sim_num_qubits = Suc 0, state_vector = [b, a], noise_model = m, noise_parameter = p,
        rng_pos = k\<rparr>"
  by (simp add: sim_applySingleQubitGate_def XGate_def SingleQubitGate_def single_qubit_case_def
      Let_def and_eval or_eval)

lemma dispatch_XGate: "dispatch_gate (XGate q) sim = sim_applySingleQubitGate (XGate q) sim"
  by (simp add: dispatch_gate_def XGate_def SingleQubitGate_def)

lemma dispatch_CNOTGate: "dispatch_gate (CNOTGate a b) sim = sim_applyTwoQubitGate (CNOTGate a b) sim"
  by (simp add: dispatch_gate_def CNOTGate_def TwoQubitGate_def)

lemma QuantumSimulator_new_2:
  "QuantumSimulator_new 2 m p =
     \<lparr>sim_num_qubits = 2, state_vector = [1, 0, 0, 0], noise_model = m, noise_parameter = p,
      rng_pos = 0\<rparr>"
  by (simp add: QuantumSimulator_new_def replicate_4)

lemma QuantumSimulator_new_1:
  "QuantumSimulator_new (Suc 0) m p =
     \<lparr>sim_num_qubits = Suc 0, state_vector = [1, 0], noise_model = m, noise_parameter = p,
      rng_pos = 0\<rparr>"
  by (simp add: QuantumSimulator_new_def replicate_2)

lemma cancel_loop_xcx: "cancel_loop 0 [XGate 0, CNOTGate 0 1, XGate 0] = [CNOTGate 0 1]"
  by code_simp

lemma merge_loop_cnot: "merge_loop 0 [CNOTGate 0 1] = [CNOTGate 0 1]"
  by code_simp

lemma layer_pass_single: "layer_pass [g] [False] = ([True], [0])"
  by (simp add: layer_pass_def can_add_def qubit_gates_def list_ex_iff)

lemma reorder_loop_single: "reorder_loop [g] [False] [] = Some [g]"
  apply (subst reorder_loop.simps)
  apply (simp add: layer_pass_single)
  apply (subst reorder_loop.simps)
  apply simp
  done

lemma cancellation_xcx: "applyCancellationRules xcx_circuit = cnot_circuit"
  unfolding applyCancellationRules_def xcx_circuit_def cnot_circuit_def
  by (simp only: QuantumCircuit.simps cancel_loop_xcx)

lemma merging_cnot: "applyMergingRules cnot_circuit = cnot_circuit"
  unfolding applyMergingRules_def cnot_circuit_def
  by (simp only: QuantumCircuit.simps merge_loop_cnot)

lemma commutation_cnot: "applyCommutationRules cnot_circuit = Inr cnot_circuit"
  by (simp add: applyCommutationRules_def cnot_circuit_def)

lemma cnot_in_register: "qubits_in_register cnot_circuit"
  by (simp add: qubits_in_register_def cnot_circuit_def CNOTGate_def TwoQubitGate_def)

lemma reorder_cnot: "reorderGates cnot_circuit = Some (Inr cnot_circuit)"
  unfolding reorderGates_def using cnot_in_register by (simp add: cnot_circuit_def reorder_loop_single)

lemma optimize_xcx: "optimize xcx_circuit = Some (Inr cnot_circuit)"
  unfolding optimize_def cancellation_xcx merging_cnot commutation_cnot
  using cnot_in_register reorder_cnot by (simp add: remapQubits_def)

lemma normalizeState_basis:
  "normalizeState \<lparr>sim_num_qubits = n, state_vector = [0, 0, 1, 0], noise_model = m,
                   noise_parameter = p, rng_pos = k\<rparr> =
     Inr \<lparr>sim_num_qubits = n, state_vector = [0, 0, 1, 0], noise_model = m, noise_parameter = p,
          rng_pos = k\<rparr>"
  "normalizeState \<lparr>sim_num_qubits = n, state_vector = [1, 0, 0, 0], noise_model = m,
                   noise_parameter = p, rng_pos = k\<rparr> =
     Inr \<lparr>sim_num_qubits = n, state_vector = [1, 0, 0, 0], noise_model = m, noise_parameter = p,
          rng_pos = k\<rparr>"
  "normalizeState \<lparr>sim_num_qubits = n, state_vector = [1, 0], noise_model = m,
                   noise_parameter = p, rng_pos = k\<rparr> =
     Inr \<lparr>sim_num_qubits = n, state_vector = [1, 0], noise_model = m, noise_parameter = p,
          rng_pos = k\<rparr>"
  "normalizeState \<lparr>sim_num_qubits = n, state_vector = [0, 1], noise_model = m,
                   noise_parameter = p, rng_pos = k\<rparr> =
     Inr \<lparr>sim_num_qubits = n, state_vector = [0, 1], noise_model = m, noise_parameter = p,
          rng_pos = k\<rparr>"
  by (simp_all add: normalizeState_def cnorm_def)

lemma simulate_xcx:
  "simulate draw xcx_circuit (QuantumSimulator_new 2 NONE 0) =
     Inr \<lparr>sim_num_qubits = 2, state_vector = [0, 0, 1, 0], noise_model = NONE,
          noise_parameter = 0, rng_pos = 0\<rparr>"
  by (simp add: simulate_def xcx_circuit_def QuantumSimulator_new_2 dispatch_XGate
      dispatch_CNOTGate sim_X_0_of_2 sim_CNOT_0_1_of_2 normalizeState_basis)

lemma simulate_cnot:
  "simulate draw cnot_circuit (QuantumSimulator_new 2 NONE 0) =
     Inr \<lparr>sim_num_qubits = 2, state_vector = [1, 0, 0, 0], noise_model = NONE,
          noise_parameter = 0, rng_pos = 0\<rparr>"
  by (simp add: simulate_def cnot_circuit_def QuantumSimulator_new_2
      dispatch_CNOTGate sim_CNOT_0_1_of_2 normalizeState_basis)

text \<open>
  On two H gates the cancellation pass empties the circuit, and applyCommutationRules then
  reads gates[0] of the empty vector.
\<close>

lemma cancel_loop_hh: "cancel_loop 0 [HGate 0, HGate 0] = []"
  by code_simp

lemma merge_loop_nil: "merge_loop 0 [] = []"
  by (simp add: merge_loop.simps)

lemma optimize_hh: "optimize hh_circuit = Some (Inl undefined_behaviour)"
  unfolding optimize_def applyCancellationRules_def applyMergingRules_def hh_circuit_def
  by (simp add: cancel_loop_hh merge_loop_nil applyCommutationRules_def)

text \<open>
  C1, evaluated on the code. The claim: the circuit optimize returns gives the same
  distribution of measurement outcomes as its input. On X q0, CNOT q0 q1, X q0 the
  cancellation pass pairs the two X gates across the CNOT, which does not commute with
  them, and optimize returns the circuit of the CNOT alone. From the initial state the
  input circuit ends in the basis state of index 2 with probability 1, the optimized
  circuit in the basis state of index 0 with probability 1.
\<close>

theorem optimize_changes_distribution:
  "optimize xcx_circuit = Some (Inr cnot_circuit)
   \<and> map_sum id outcome_distribution (simulate draw xcx_circuit (QuantumSimulator_new 2 NONE 0))
       = Inr [0, 0, 1, 0]
   \<and> map_sum id outcome_distribution (simulate draw cnot_circuit (QuantumSimulator_new 2 NONE 0))
       = Inr [1, 0, 0, 0]"
  unfolding optimize_xcx simulate_xcx simulate_cnot
  by (simp add: outcome_distribution_def cnorm_def)

section \<open>The norm of the final state\<close>

lemma getQubits_XGate: "getQubits (XGate q) = [q]"
  by (simp add: XGate_def SingleQubitGate_def)

lemma damping_after_x:
  "noise_on_qubits draws_quarter [0]
     \<lparr>sim_num_qubits = Suc 0, state_vector = [0, 1], noise_model = AMPLITUDE_DAMPING,
      noise_parameter = 1 / 2, rng_pos = 0\<rparr> =
   Inr \<lparr>sim_num_qubits = Suc 0, state_vector = [0, 0], noise_model = AMPLITUDE_DAMPING,
        noise_parameter = 1 / 2, rng_pos = Suc 0\<rparr>"
  by (simp add: applyNoise_def applyAmplitudeDampingNoise_def next_draw_def draws_quarter_def
      and_eval)

lemma simulate_gates_x_damping:
  "simulate_gates draws_quarter (gates x_circuit) (QuantumSimulator_new 1 AMPLITUDE_DAMPING (1 / 2)) =
     Inr \<lparr>sim_num_qubits = 1, state_vector = [0, 0], noise_model = AMPLITUDE_DAMPING,
          noise_parameter = 1 / 2, rng_pos = 1\<rparr>"
  unfolding x_circuit_def
  by (simp add: QuantumSimulator_new_1 dispatch_XGate sim_X_0_of_1 getQubits_XGate
      del: noise_on_qubits.simps) (simp only: damping_after_x sum.case simulate_gates.simps)

text \<open>
  QuantumNoise::applyNoise with a draw below the error rate reads its two-entry operators
  at the index 2 and beyond as soon as the state has one qubit.
\<close>

lemma noise_fires_out_of_bounds:
  "noise_applyNoise (1 / 4) (QuantumNoise_new (1 / 2)) [1, 0] 0 = Inl undefined_behaviour"
  by (simp add: noise_applyNoise_def QuantumNoise_new_def initializeNoiseMatrix_def
      applyKrausOperators_def Let_def)

lemma collapse_x_measure:
  "collapse 0 False \<lparr>num_qubits = Suc 0, state = [0, 1]\<rparr> = \<lparr>num_qubits = Suc 0, state = [0, 0]\<rparr>"
  by (simp add: collapse_def and_eval upt_rec)

lemma prob0_x: "measure_prob0 0 \<lparr>num_qubits = Suc 0, state = [0, 1]\<rparr> = 0"
  by (simp add: measure_prob0_def and_eval upt_rec cnorm_def)

lemma normalize_zero_vector:
  "normalize \<lparr>num_qubits = Suc 0, state = [0, 0]\<rparr> = Inl not_a_number"
  by (simp add: normalize_def cnorm_def)

lemma measure_after_x:
  "qs_measure (draws_zero 0) 0 \<lparr>num_qubits = Suc 0, state = [0, 1]\<rparr> =
     (False, Inl not_a_number)"
  by (simp add: qs_measure_def Let_def prob0_x draws_zero_def collapse_x_measure
      normalize_zero_vector)

lemma execute_x_measure:
  "execute draws_zero x_measure_circuit (QuantumState_new 1) = Inl not_a_number"
  by (simp add: execute_def x_measure_circuit_def ic_addGate_def ICircuit_new_def one_arg_def
      QuantumState_new_1 applyX_one_qubit measure_after_x)

text \<open>
  C6, evaluated on the code. The claim: after any legal circuit from the initial state,
  also with a noise model enabled, the squared norm of the final vector is within 10^-9
  of 1. In the simulator, with amplitude damping (parameter 1/2, draw 1/4), the circuit of
  one X gate leaves the loop of simulate with the amplitudes [0, 0], whose squared norm
  is 0: X moves the state to index 1, and the damping step sets that amplitude to 0.
  normalizeState then divides by the norm 0, and the final vector holds NaN in both
  components. In the interpreter, X followed by a measurement whose draw is 0.0 gives
  prob0 = 0 and the result \<open>0.0 > 0\<close>, false: the collapse zeroes the only non-zero
  amplitude and normalize divides the zero vector by 0 in the same way.
\<close>

theorem damping_leaves_zero_vector:
  "simulate_gates draws_quarter (gates x_circuit)
       (QuantumSimulator_new 1 AMPLITUDE_DAMPING (1 / 2)) =
     Inr \<lparr>sim_num_qubits = 1, state_vector = [0, 0], noise_model = AMPLITUDE_DAMPING,
          noise_parameter = 1 / 2, rng_pos = 1\<rparr>
   \<and> map_sum id (\<lambda>sim. sum_list (outcome_distribution sim))
         (simulate_gates draws_quarter (gates x_circuit)
            (QuantumSimulator_new 1 AMPLITUDE_DAMPING (1 / 2))) =
       Inr 0
   \<and> simulate draws_quarter x_circuit (QuantumSimulator_new 1 AMPLITUDE_DAMPING (1 / 2)) =
       Inl not_a_number
   \<and> execute draws_zero x_measure_circuit (QuantumState_new 1) = Inl not_a_number"
proof -
  have "simulate draws_quarter x_circuit (QuantumSimulator_new 1 AMPLITUDE_DAMPING (1 / 2)) =
       Inl not_a_number"
    unfolding simulate_def simulate_gates_x_damping
    by (simp add: normalizeState_def cnorm_def)
  moreover have "map_sum id (\<lambda>sim. sum_list (outcome_distribution sim))
         (simulate_gates draws_quarter (gates x_circuit)
            (QuantumSimulator_new 1 AMPLITUDE_DAMPING (1 / 2))) =
       Inr 0"
    unfolding simulate_gates_x_damping
    by (simp add: outcome_distribution_def cnorm_def)
  ultimately show ?thesis
    using simulate_gates_x_damping execute_x_measure by simp
qed

section \<open>Measurement\<close>

lemma foldl_update_length:
  "length (foldl (\<lambda>st i. st[i := g st i]) sv xs) = length sv"
  by (induction xs arbitrary: sv) simp_all

lemma foldl_update_nth:
  assumes "k < length sv"
  shows "foldl (\<lambda>st i. st[i := f i (st ! i)]) sv [0..<n] ! k = (if k < n then f k (sv ! k) else sv ! k)"
  using assms
proof (induction n)
  case 0
  show ?case by simp
next
  case (Suc n)
  have len: "length (foldl (\<lambda>st i. st[i := f i (st ! i)]) sv [0..<n]) = length sv"
    by (rule foldl_update_length)
  show ?case
  proof (cases "k = n")
    case True
    with Suc len show ?thesis by simp
  next
    case False
    with Suc len show ?thesis by (simp add: nth_list_update)
  qed
qed

lemma foldl_sum: "foldl (\<lambda>acc a. acc + f a) z xs = z + sum_list (map f xs)"
  by (induction xs arbitrary: z) (simp_all add: add.assoc)

lemma cond_update: "(\<lambda>st i. if c i then st[i := 0] else st) = (\<lambda>st i. st[i := (if c i then 0 else st ! i)])"
  by (intro ext) simp

lemma collapse_fold:
  "foldl (\<lambda>st i. if (i AND 2 ^ qubit = 0) = result then st[i := 0] else st) sv xs =
   foldl (\<lambda>st i. st[i := (\<lambda>i x. if (i AND 2 ^ qubit = 0) = result then 0 else x) i (st ! i)]) sv xs"
  by (induction xs arbitrary: sv) simp_all

lemma collapse_length: "length (state (collapse qubit result s)) = length (state s)"
  unfolding collapse_def collapse_fold by (simp add: foldl_update_length)

lemma collapse_nth:
  assumes "i < length (state s)"
  shows "state (collapse qubit result s) ! i =
           (if i < 2 ^ num_qubits s \<and> (i AND 2 ^ qubit = 0) = result then 0 else state s ! i)"
proof -
  have "state (collapse qubit result s) ! i =
        (if i < 2 ^ num_qubits s
         then (\<lambda>i x. if (i AND 2 ^ qubit = 0) = result then 0 else x) i (state s ! i)
         else state s ! i)"
    unfolding collapse_def collapse_fold
    using foldl_update_nth [OF assms,
        of "\<lambda>i x. if (i AND 2 ^ qubit = 0) = result then 0 else x" "2 ^ num_qubits s"]
    by simp
  then show ?thesis by simp
qed

lemma collapse_state:
  assumes "length (state s) = 2 ^ num_qubits s"
  shows "state (collapse qubit result s) =
           map (\<lambda>i. if (i AND 2 ^ qubit = 0) = result then 0 else state s ! i) [0..<2 ^ num_qubits s]"
proof (rule nth_equalityI)
  show "length (state (collapse qubit result s)) =
        length (map (\<lambda>i. if (i AND 2 ^ qubit = 0) = result then 0 else state s ! i) [0..<2 ^ num_qubits s])"
    using assms by (simp add: collapse_length)
next
  fix i assume "i < length (state (collapse qubit result s))"
  then have i: "i < length (state s)" by (simp add: collapse_length)
  then show "state (collapse qubit result s) ! i =
        map (\<lambda>i. if (i AND 2 ^ qubit = 0) = result then 0 else state s ! i) [0..<2 ^ num_qubits s] ! i"
    using assms by (simp add: collapse_nth)
qed

lemma collapse_norm:
  assumes "length (state s) = 2 ^ num_qubits s"
  shows "foldl (\<lambda>acc amplitude. acc + cnorm amplitude) 0 (state (collapse qubit result s)) =
         outcome_probability qubit result s"
proof -
  have "cnorm \<circ> (\<lambda>i. if (i AND 2 ^ qubit = 0) = result then 0 else state s ! i)
        = (\<lambda>i. if (i AND 2 ^ qubit = 0) = result then 0 else cnorm (state s ! i))"
    by (auto simp: cnorm_def fun_eq_iff)
  then show ?thesis
    unfolding outcome_probability_def collapse_state [OF assms] foldl_sum by simp
qed

lemma normalize_collapse:
  assumes "length (state s) = 2 ^ num_qubits s"
    and "0 < outcome_probability qubit result s"
  shows "normalize (collapse qubit result s) =
           Inr ((collapse qubit result s)
                  \<lparr>state := map (\<lambda>amplitude. amplitude /
                                    complex_of_real (sqrt (outcome_probability qubit result s)))
                             (state (collapse qubit result s))\<rparr>)"
  unfolding normalize_def Let_def collapse_norm [OF assms(1)] using assms(2) by simp

lemma prob0_outcome: "measure_prob0 qubit s = outcome_probability qubit False s"
proof -
  have "(\<lambda>prob0 i. if i AND 2 ^ qubit = 0 then prob0 + cnorm (state s ! i) else prob0)
      = (\<lambda>prob0 i. prob0 + (if (i AND 2 ^ qubit = 0) = False then 0 else cnorm (state s ! i)))"
    by (intro ext) simp
  then show ?thesis
    unfolding measure_prob0_def outcome_probability_def by (simp add: foldl_sum)
qed

lemma qs_measure_state:
  assumes "length (state s) = 2 ^ num_qubits s"
    and "0 < outcome_probability qubit (r > outcome_probability qubit False s) s"
  shows "\<exists>s'. qs_measure r qubit s = (r > outcome_probability qubit False s, Inr s')
           \<and> length (state s') = length (state s)
           \<and> (\<forall>i<2 ^ num_qubits s. state s' ! i =
                (if (i AND 2 ^ qubit = 0) = (r > outcome_probability qubit False s) then 0
                 else state s ! i /
                      complex_of_real
                        (sqrt (outcome_probability qubit (r > outcome_probability qubit False s) s))))"
proof -
  let ?res = "r > outcome_probability qubit False s"
  let ?d = "complex_of_real (sqrt (outcome_probability qubit ?res s))"
  let ?s' = "(collapse qubit ?res s)
               \<lparr>state := map (\<lambda>amplitude. amplitude / ?d) (state (collapse qubit ?res s))\<rparr>"
  have eq: "qs_measure r qubit s = (?res, Inr ?s')"
    unfolding qs_measure_def Let_def prob0_outcome normalize_collapse [OF assms] by simp
  have len: "length (state ?s') = length (state s)"
    by (simp add: collapse_length)
  have nth: "\<forall>i<2 ^ num_qubits s. state ?s' ! i =
                (if (i AND 2 ^ qubit = 0) = ?res then 0 else state s ! i / ?d)"
  proof (intro allI impI)
    fix i :: nat
    assume i: "i < 2 ^ num_qubits s"
    then have il: "i < length (state s)" using assms(1) by simp
    then have "state ?s' ! i = state (collapse qubit ?res s) ! i / ?d"
      by (simp add: collapse_length)
    also have "state (collapse qubit ?res s) ! i =
        (if (i AND 2 ^ qubit = 0) = ?res then 0 else state s ! i)"
      using i il by (simp add: collapse_nth)
    finally show "state ?s' ! i = (if (i AND 2 ^ qubit = 0) = ?res then 0 else state s ! i / ?d)"
      by simp
  qed
  from eq len nth show ?thesis by blast
qed

lemma cnorm_of_real: "cnorm (complex_of_real x) = x\<^sup>2"
  by (simp add: cnorm_def)

lemma measure_probability_outcome:
  "measure_probability qubit sim = sim_outcome_probability qubit True sim"
proof -
  have "(\<lambda>probability i. if i AND 2 ^ qubit \<noteq> 0 then probability + cnorm (state_vector sim ! i)
                          else probability)
      = (\<lambda>probability i. probability +
            (if (i AND 2 ^ qubit \<noteq> 0) = True then cnorm (state_vector sim ! i) else 0))"
    by (intro ext) simp
  then show ?thesis
    unfolding measure_probability_def sim_outcome_probability_def by (simp add: foldl_sum)
qed

lemma sim_outcome_split:
  "sum_list (map cnorm (state_vector sim)) =
     sim_outcome_probability qubit True sim + sim_outcome_probability qubit False sim"
proof -
  let ?sv = "state_vector sim"
  have "map cnorm ?sv = map cnorm (map (nth ?sv) [0..<length ?sv])"
    by (simp only: map_nth)
  also have "\<dots> = map (\<lambda>i. (if (i AND 2 ^ qubit \<noteq> 0) = True then cnorm (?sv ! i) else 0)
                          + (if (i AND 2 ^ qubit \<noteq> 0) = False then cnorm (?sv ! i) else 0))
                     [0..<length ?sv]"
    by simp
  finally show ?thesis
    unfolding sim_outcome_probability_def by (simp only: sum_list_addf)
qed

lemma measure_fold:
  "foldl (\<lambda>st i. if i AND 2 ^ qubit \<noteq> 0 then st[i := (if result then st ! i / d1 else 0)]
                   else st[i := (if \<not> result then st ! i / d0 else 0)]) sv xs =
   foldl (\<lambda>st i. st[i := (\<lambda>i x. if (i AND 2 ^ qubit \<noteq> 0) = result
                                  then x / (if result then d1 else d0) else 0) i (st ! i)]) sv xs"
  by (induction xs arbitrary: sv) simp_all

lemma sim_measure_collapse:
  assumes "qubit < sim_num_qubits sim"
    and "sum_list (map cnorm (state_vector sim)) = 1"
    and "0 < sim_outcome_probability qubit
               (draw (rng_pos sim) < sim_outcome_probability qubit True sim) sim"
  shows "\<exists>sim'. sim_measure draw qubit sim =
                  Inr (draw (rng_pos sim) < sim_outcome_probability qubit True sim, sim')
           \<and> length (state_vector sim') = length (state_vector sim)
           \<and> (\<forall>i<length (state_vector sim). state_vector sim' ! i =
                (if (i AND 2 ^ qubit \<noteq> 0) = (draw (rng_pos sim) < sim_outcome_probability qubit True sim)
                 then state_vector sim ! i /
                      complex_of_real
                        (sqrt (sim_outcome_probability qubit
                                 (draw (rng_pos sim) < sim_outcome_probability qubit True sim) sim))
                 else 0))"
proof -
  let ?p = "measure_probability qubit sim"
  let ?res = "draw (rng_pos sim) < ?p"
  let ?f = "\<lambda>i x. if (i AND 2 ^ qubit \<noteq> 0) = ?res
                  then x / (if ?res then complex_of_real (sqrt ?p) else complex_of_real (sqrt (1 - ?p)))
                  else 0"
  let ?sv = "foldl (\<lambda>st i. st[i := ?f i (st ! i)]) (state_vector sim) [0..<length (state_vector sim)]"
  have p1: "?p = sim_outcome_probability qubit True sim"
    by (rule measure_probability_outcome)
  have p0: "1 - ?p = sim_outcome_probability qubit False sim"
    using sim_outcome_split [of sim qubit] assms(2) p1 by simp
  have rad: "(if ?res then ?p else 1 - ?p) = sim_outcome_probability qubit ?res sim"
    using p1 p0 by simp
  have "0 < sim_outcome_probability qubit ?res sim"
    using assms(3) by (simp only: p1)
  then have "0 < (if ?res then ?p else 1 - ?p)"
    by (simp only: rad)
  then have pos: "\<not> (if ?res then ?p else 1 - ?p) \<le> 0"
    by (simp only: not_le)
  have eq: "sim_measure draw qubit sim = Inr (?res, sim\<lparr>rng_pos := Suc (rng_pos sim), state_vector := ?sv\<rparr>)"
    using assms(1) pos unfolding sim_measure_def next_draw_def Let_def measure_fold by simp
  have len: "length ?sv = length (state_vector sim)"
    by (rule foldl_update_length)
  have nth: "\<forall>i<length (state_vector sim). ?sv ! i = ?f i (state_vector sim ! i)"
    using foldl_update_nth [of _ "state_vector sim" ?f "length (state_vector sim)"] by simp
  have div: "(if ?res then complex_of_real (sqrt ?p) else complex_of_real (sqrt (1 - ?p))) =
             complex_of_real (sqrt (sim_outcome_probability qubit ?res sim))"
    using p1 p0 by simp
  have nth': "\<forall>i<length (state_vector sim). ?sv ! i =
        (if (i AND 2 ^ qubit \<noteq> 0) = ?res
         then state_vector sim ! i / complex_of_real (sqrt (sim_outcome_probability qubit ?res sim))
         else 0)"
    using nth unfolding div .
  have "\<exists>sim'. sim_measure draw qubit sim = Inr (?res, sim')
           \<and> length (state_vector sim') = length (state_vector sim)
           \<and> (\<forall>i<length (state_vector sim). state_vector sim' ! i =
                (if (i AND 2 ^ qubit \<noteq> 0) = ?res
                 then state_vector sim ! i /
                      complex_of_real (sqrt (sim_outcome_probability qubit ?res sim))
                 else 0))"
    apply (rule exI [of _ "sim\<lparr>rng_pos := Suc (rng_pos sim), state_vector := ?sv\<rparr>"])
    using eq len nth' by simp
  then show ?thesis unfolding p1 .
qed

lemma tiny_cnorm:
  "cnorm (20000000 / 100000000000001) = 400000000000000 / 10000000000000200000000000001"
  using cnorm_of_real [of "20000000 / 100000000000001"] by (simp add: power2_eq_square)

lemma tiny_probability:
  "measure_probability 0 tiny_amplitude_sim = 400000000000000 / 10000000000000200000000000001"
  by (simp add: measure_probability_def tiny_amplitude_sim_def and_eval tiny_cnorm upt_rec)

lemma tiny_sqrt:
  "sqrt (400000000000000 / 10000000000000200000000000001) = 20000000 / 100000000000001"
  by (rule real_sqrt_unique) (simp_all add: power2_eq_square)

lemma tiny_below: "measure_probability 0 tiny_amplitude_sim < 1 / 10 ^ 12"
  unfolding tiny_probability by simp

lemma tiny_measure: "sim_measure draws_zero 0 tiny_amplitude_sim =
     Inr (True, tiny_amplitude_sim\<lparr>state_vector := [0, 1], rng_pos := 1\<rparr>)"
  unfolding sim_measure_def next_draw_def Let_def tiny_probability
  by (simp add: tiny_amplitude_sim_def draws_zero_def and_eval tiny_sqrt)

text \<open>
  C3 as stated fails: no measure function tests the probability of the outcome, and the
  sources have no UnderflowError. On a normalized one-qubit state whose amplitude at index
  1 has squared magnitude 4 * 10^14 / (10^14 + 1)^2, below 10^-12, with the draw 0,
  QuantumSimulator::measure returns outcome 1 and the collapsed state [0, 1].
\<close>

theorem measure_returns_state_below_threshold:
  "measure_probability 0 tiny_amplitude_sim < 1 / 10 ^ 12
   \<and> sim_measure draws_zero 0 tiny_amplitude_sim =
       Inr (True, tiny_amplitude_sim\<lparr>state_vector := [0, 1], rng_pos := 1\<rparr>)"
  using tiny_below tiny_measure by simp

text \<open>
  C3 as amended: when the drawn outcome has a probability above 0, measure(q) returns the
  outcome and the collapsed state, in which the amplitudes inconsistent with the outcome
  are 0 and the others are the old ones divided by sqrt(p_outcome); how far above 0 the
  probability lies plays no part. Here p_outcome is the sum of the squared magnitudes of
  the amplitudes consistent with the outcome, and q is a qubit of the register. For
  QuantumSimulator::measure the state has squared norm 1 (its divisor for outcome 0 is
  sqrt(1 - probability), probability being that of outcome 1), and the outcome is 1 when
  the draw is below the probability of 1. For QuantumState::measure the state has its 2^n
  amplitudes, and the outcome is 1 when the draw is above the probability of 0. The
  statement says nothing about an outcome of probability 0.
\<close>

theorem measure_collapse:
  assumes "qubit < sim_num_qubits sim"
    and "sum_list (map cnorm (state_vector sim)) = 1"
    and "0 < sim_outcome_probability qubit
               (draw (rng_pos sim) < sim_outcome_probability qubit True sim) sim"
    and "qubit < num_qubits s"
    and "length (state s) = 2 ^ num_qubits s"
    and "0 < outcome_probability qubit (r > outcome_probability qubit False s) s"
  shows "(\<exists>sim'. sim_measure draw qubit sim =
                  Inr (draw (rng_pos sim) < sim_outcome_probability qubit True sim, sim')
           \<and> length (state_vector sim') = length (state_vector sim)
           \<and> (\<forall>i<length (state_vector sim). state_vector sim' ! i =
                (if (i AND 2 ^ qubit \<noteq> 0) = (draw (rng_pos sim) < sim_outcome_probability qubit True sim)
                 then state_vector sim ! i /
                      complex_of_real
                        (sqrt (sim_outcome_probability qubit
                                 (draw (rng_pos sim) < sim_outcome_probability qubit True sim) sim))
                 else 0)))
       \<and> (\<exists>s'. qs_measure r qubit s = (r > outcome_probability qubit False s, Inr s')
           \<and> length (state s') = length (state s)
           \<and> (\<forall>i<2 ^ num_qubits s. state s' ! i =
                (if (i AND 2 ^ qubit = 0) = (r > outcome_probability qubit False s) then 0
                 else state s ! i /
                      complex_of_real
                        (sqrt (outcome_probability qubit (r > outcome_probability qubit False s) s)))))"
  using sim_measure_collapse [of qubit sim draw, OF assms(1) assms(2) assms(3)]
    qs_measure_state [of s qubit r, OF assms(5) assms(6)]
  by (rule conjI)

lemma tiny_normalized: "sum_list (map cnorm (state_vector tiny_amplitude_sim)) = 1"
  using cnorm_of_real [of "99999999999999 / 100000000000001"]
    cnorm_of_real [of "20000000 / 100000000000001"]
  by (simp add: tiny_amplitude_sim_def power2_eq_square)

lemma tiny_outcome:
  "sim_outcome_probability 0 True tiny_amplitude_sim =
     400000000000000 / 10000000000000200000000000001"
  using measure_probability_outcome [of 0 tiny_amplitude_sim] tiny_probability by simp

lemma three_four_five_outcome0: "outcome_probability 0 False three_four_five = 9 / 25"
  by (simp add: outcome_probability_def three_four_five_def and_eval cnorm_def upt_rec
      power2_eq_square)

lemma three_four_five_outcome: "outcome_probability 0 True three_four_five = 16 / 25"
  by (simp add: outcome_probability_def three_four_five_def and_eval cnorm_def upt_rec
      power2_eq_square)

lemma sqrt_16_25: "sqrt (16 / 25) = 4 / 5"
  by (rule real_sqrt_unique) (simp_all add: power2_eq_square)

theorem measure_collapse_witness:
  "0 < sim_num_qubits tiny_amplitude_sim
   \<and> sum_list (map cnorm (state_vector tiny_amplitude_sim)) = 1
   \<and> 0 < sim_outcome_probability 0 True tiny_amplitude_sim
   \<and> 0 < num_qubits three_four_five
   \<and> length (state three_four_five) = 2 ^ num_qubits three_four_five
   \<and> 0 < outcome_probability 0 True three_four_five
   \<and> (\<exists>sim'. sim_measure draws_zero 0 tiny_amplitude_sim = Inr (True, sim')
              \<and> state_vector sim' ! 0 = 0 \<and> state_vector sim' ! 1 = 1)
   \<and> (\<exists>s'. qs_measure (1 / 2) 0 three_four_five = (True, Inr s')
              \<and> state s' ! 0 = 0 \<and> state s' ! 1 = 1)"
proof -
  have h1: "0 < sim_num_qubits tiny_amplitude_sim"
    by (simp add: tiny_amplitude_sim_def)
  have res: "(draws_zero (rng_pos tiny_amplitude_sim) <
                sim_outcome_probability 0 True tiny_amplitude_sim) = True"
    unfolding tiny_outcome by (simp add: draws_zero_def)
  have p1: "0 < sim_outcome_probability 0 True tiny_amplitude_sim"
    unfolding tiny_outcome by simp
  have h3: "0 < sim_outcome_probability 0
                  (draws_zero (rng_pos tiny_amplitude_sim) <
                     sim_outcome_probability 0 True tiny_amplitude_sim) tiny_amplitude_sim"
    unfolding res by (rule p1)
  have h4: "length (state three_four_five) = 2 ^ num_qubits three_four_five"
    by (simp add: three_four_five_def)
  have h6: "0 < num_qubits three_four_five"
    by (simp add: three_four_five_def)
  have up: "((1 / 2 :: real) > outcome_probability 0 False three_four_five) = True"
    unfolding three_four_five_outcome0 by simp
  have q1: "0 < outcome_probability 0 True three_four_five"
    unfolding three_four_five_outcome by simp
  have h5: "0 < outcome_probability 0 (1 / 2 > outcome_probability 0 False three_four_five)
                  three_four_five"
    unfolding up by (rule q1)
  note t = measure_collapse [of 0 tiny_amplitude_sim draws_zero three_four_five "1 / 2",
      OF h1 tiny_normalized h3 h6 h4 h5]
  from t [THEN conjunct1] obtain sim' where
    sim': "sim_measure draws_zero 0 tiny_amplitude_sim = Inr (True, sim')"
      "\<forall>i<length (state_vector tiny_amplitude_sim). state_vector sim' ! i =
         (if (i AND 2 ^ 0 \<noteq> 0) = True
          then state_vector tiny_amplitude_sim ! i /
               complex_of_real (sqrt (sim_outcome_probability 0 True tiny_amplitude_sim))
          else 0)"
    unfolding res by blast
  have a0: "state_vector sim' ! 0 = 0"
    using sim'(2) [rule_format, of 0] by (simp add: tiny_amplitude_sim_def)
  have a1: "state_vector sim' ! 1 = 1"
    using sim'(2) [rule_format, of 1] unfolding tiny_outcome tiny_sqrt
    by (simp add: tiny_amplitude_sim_def and_eval)
  from t [THEN conjunct2] obtain s' where
    s': "qs_measure (1 / 2) 0 three_four_five = (True, Inr s')"
      "\<forall>i<2 ^ num_qubits three_four_five. state s' ! i =
         (if (i AND 2 ^ 0 = 0) = True then 0
          else state three_four_five ! i /
               complex_of_real (sqrt (outcome_probability 0 True three_four_five)))"
    unfolding up by blast
  have b0: "state s' ! 0 = 0"
    using s'(2) [rule_format, of 0] by (simp add: three_four_five_def)
  have b1: "state s' ! 1 = 1"
    using s'(2) [rule_format, of 1] unfolding three_four_five_outcome sqrt_16_25
    by (simp add: three_four_five_def and_eval)
  from sim'(1) a0 a1 have A: "\<exists>sim'. sim_measure draws_zero 0 tiny_amplitude_sim = Inr (True, sim')
              \<and> state_vector sim' ! 0 = 0 \<and> state_vector sim' ! 1 = 1"
    by blast
  from s'(1) b0 b1 have B: "\<exists>s'. qs_measure (1 / 2) 0 three_four_five = (True, Inr s')
              \<and> state s' ! 0 = 0 \<and> state s' ! 1 = 1"
    by blast
  from h1 tiny_normalized p1 h6 h4 q1 A B show ?thesis by blast
qed

section \<open>The cancellation pass\<close>

lemma canCancelGates_iff:
  "canCancelGates g1 g2 \<longleftrightarrow>
     getType g1 = getType g2 \<and> getQubits g1 = getQubits g2
     \<and> getType g1 \<in> {GT_X, GT_Y, GT_Z, GT_H}"
  by (cases "getType g1") (simp_all add: canCancelGates_def cancellation_pairs_def)

lemma length_erase: "k < length xs \<Longrightarrow> length (erase k xs) = length xs - 1"
  by (simp add: erase_def)

lemma nth_erase_before: "i < k \<Longrightarrow> k < length xs \<Longrightarrow> erase k xs ! i = xs ! i"
  by (simp add: erase_def nth_append)

lemma filter_erase:
  assumes "k < length xs" and "\<not> P (xs ! k)"
  shows "filter P (erase k xs) = filter P xs"
proof -
  have "filter P xs = filter P (take k xs @ xs ! k # drop (Suc k) xs)"
    by (simp only: id_take_nth_drop [OF assms(1), symmetric])
  also have "\<dots> = filter P (take k xs) @ filter P (drop (Suc k) xs)"
    using assms(2) by simp
  finally show ?thesis by (simp add: erase_def)
qed

lemma find_first_cancel:
  assumes "find (\<lambda>j. canCancelGates (gs ! i) (gs ! j)) [i + 1..<length gs] = Some j"
  shows "i < j" "j < length gs" "canCancelGates (gs ! i) (gs ! j)"
        "\<forall>k. i < k \<and> k < j \<longrightarrow> \<not> canCancelGates (gs ! i) (gs ! k)"
proof -
  from assms obtain n where n: "n < length [i + 1..<length gs]"
      "canCancelGates (gs ! i) (gs ! ([i + 1..<length gs] ! n))"
      "j = [i + 1..<length gs] ! n"
      "\<forall>m<n. \<not> canCancelGates (gs ! i) (gs ! ([i + 1..<length gs] ! m))"
    unfolding find_Some_iff by blast
  from n(1,3) show ij: "i < j" and jl: "j < length gs" by simp_all
  from n(2,3) show "canCancelGates (gs ! i) (gs ! j)" by simp
  show "\<forall>k. i < k \<and> k < j \<longrightarrow> \<not> canCancelGates (gs ! i) (gs ! k)"
  proof (intro allI impI)
    fix k assume k: "i < k \<and> k < j"
    then have m: "k - (i + 1) < n" using n(1,3) by auto
    have "[i + 1..<length gs] ! (k - (i + 1)) = k"
      using k jl by simp
    moreover from n(4) m
    have "\<not> canCancelGates (gs ! i) (gs ! ([i + 1..<length gs] ! (k - (i + 1))))" by blast
    ultimately show "\<not> canCancelGates (gs ! i) (gs ! k)" by simp
  qed
qed

lemma list_all_erase: "list_all P xs \<Longrightarrow> list_all P (erase k xs)"
  unfolding erase_def list_all_iff
  by (auto dest: in_set_takeD in_set_dropD)

lemma same_kind_pair:
  "t \<in> {GT_X, GT_Y, GT_Z, GT_H} \<Longrightarrow> (t, t) \<in> single_qubit_pairs"
  by (auto simp: single_qubit_pairs_def)

lemma class_parameters_nil:
  "class_parameters g \<Longrightarrow> getType g \<in> {GT_X, GT_Y, GT_Z, GT_H} \<Longrightarrow> getParameters g = []"
  by (auto simp: class_parameters_def)

lemma cancel_step_of_find:
  assumes "find (\<lambda>j. canCancelGates (gs ! i) (gs ! j)) [i + 1..<length gs] = Some j"
    and "list_all class_parameters gs"
  shows "cancel_step gs (erase i (erase j gs))"
proof -
  note f = find_first_cancel [OF assms(1)]
  have c: "getType (gs ! i) = getType (gs ! j) \<and> getQubits (gs ! i) = getQubits (gs ! j)
           \<and> getType (gs ! i) \<in> {GT_X, GT_Y, GT_Z, GT_H}"
    using f(3) by (rule iffD1 [OF canCancelGates_iff])
  note c1 = c [THEN conjunct1]
  note c2 = c [THEN conjunct2, THEN conjunct1]
  note c3 = c [THEN conjunct2, THEN conjunct2]
  have il: "i < length gs" using f(1) f(2) by simp
  have "(getType (gs ! i), getType (gs ! i)) \<in> single_qubit_pairs"
    using c3 by (rule same_kind_pair)
  then have pair: "(getType (gs ! i), getType (gs ! j)) \<in> single_qubit_pairs"
    using c1 by simp
  have ci: "class_parameters (gs ! i)" and cj: "class_parameters (gs ! j)"
    using assms(2) il f(2) by (simp_all add: list_all_length)
  have tj: "getType (gs ! j) \<in> {GT_X, GT_Y, GT_Z, GT_H}"
    using c3 c1 by simp
  have "getParameters (gs ! i) = []"
    using ci c3 by (rule class_parameters_nil)
  moreover have "getParameters (gs ! j) = []"
    using cj tj by (rule class_parameters_nil)
  ultimately have par: "getParameters (gs ! i) = getParameters (gs ! j)"
    by simp
  from f(1) f(2) c2 pair par show ?thesis by (rule cancel_step.intros)
qed

lemma cancel_loop_steps:
  "list_all class_parameters gs \<Longrightarrow> cancel_step\<^sup>*\<^sup>* gs (cancel_loop i gs)"
proof (induction i gs rule: cancel_loop.induct)
  case (1 i gs)
  show ?case
  proof (cases "i < length gs")
    case False
    then show ?thesis by (simp add: cancel_loop.simps)
  next
    case True
    show ?thesis
    proof (cases "find (\<lambda>j. canCancelGates (gs ! i) (gs ! j)) [i + 1..<length gs]")
      case None
      from "1.IH"(1) [OF True None "1.prems"] True None show ?thesis
        by (simp add: cancel_loop.simps [of i gs])
    next
      case (Some j)
      have "list_all class_parameters (erase i (erase j gs))"
        using "1.prems" by (intro list_all_erase)
      with cancel_step_of_find [OF Some "1.prems"] "1.IH"(2) [OF True Some]
      have "cancel_step\<^sup>*\<^sup>* gs (cancel_loop i (erase i (erase j gs)))"
        by (simp add: converse_rtranclp_into_rtranclp)
      with True Some show ?thesis by (simp add: cancel_loop.simps [of i gs])
    qed
  qed
qed

lemma pair_kinds:
  "(t1, t2) \<in> single_qubit_pairs \<Longrightarrow>
     t1 \<notin> {GT_CNOT, GT_CZ, GT_SWAP} \<and> t2 \<notin> {GT_CNOT, GT_CZ, GT_SWAP}"
  by (auto simp: single_qubit_pairs_def)

lemma cancel_step_keeps_others:
  assumes "cancel_step gs gs'"
  shows "filter (\<lambda>g. getType g \<in> {GT_CNOT, GT_CZ, GT_SWAP}) gs' =
         filter (\<lambda>g. getType g \<in> {GT_CNOT, GT_CZ, GT_SWAP}) gs"
  using assms
proof cases
  case (1 i j)
  note k = pair_kinds [OF 1(5)]
  have a: "filter (\<lambda>g. getType g \<in> {GT_CNOT, GT_CZ, GT_SWAP}) (erase j gs) =
           filter (\<lambda>g. getType g \<in> {GT_CNOT, GT_CZ, GT_SWAP}) gs"
    using 1(3) k [THEN conjunct2] by (rule filter_erase)
  have "i < length (erase j gs)" using 1 by (simp add: length_erase)
  moreover have "erase j gs ! i = gs ! i" using 1 by (simp add: nth_erase_before)
  ultimately have "filter (\<lambda>g. getType g \<in> {GT_CNOT, GT_CZ, GT_SWAP}) (erase i (erase j gs)) =
           filter (\<lambda>g. getType g \<in> {GT_CNOT, GT_CZ, GT_SWAP}) (erase j gs)"
    using k [THEN conjunct1] by (intro filter_erase) simp_all
  with a 1(1) show ?thesis by simp
qed

lemma cancel_steps_keep_others:
  assumes "cancel_step\<^sup>*\<^sup>* gs gs'"
  shows "filter (\<lambda>g. getType g \<in> {GT_CNOT, GT_CZ, GT_SWAP}) gs' =
         filter (\<lambda>g. getType g \<in> {GT_CNOT, GT_CZ, GT_SWAP}) gs"
  using assms
proof (induction rule: rtranclp_induct)
  case base
  show ?case by (rule refl)
next
  case (step y z)
  from cancel_step_keeps_others [OF step(2)] step(3) show ?case by (rule trans)
qed

lemma two_qubit_pairs_kept:
  "cancel_loop 0 [CNOTGate 0 1, CNOTGate 0 1, CZGate 0 1, CZGate 0 1, SWAPGate 0 1, SWAPGate 0 1] =
     [CNOTGate 0 1, CNOTGate 0 1, CZGate 0 1, CZGate 0 1, SWAPGate 0 1, SWAPGate 0 1]"
  by code_simp

text \<open>
  C7 as stated fails: its last part says that equal adjacent CNOT, CZ and SWAP pairs are
  cancelled. The table cancellation_pairs has no entry for CNOT, CZ or SWAP, and the pass
  returns the circuit of three such pairs with all six gates.
\<close>

theorem two_qubit_pairs_not_cancelled:
  "gates (applyCancellationRules two_qubit_pairs_circuit) =
     [CNOTGate 0 1, CNOTGate 0 1, CZGate 0 1, CZGate 0 1, SWAPGate 0 1, SWAPGate 0 1]"
  unfolding applyCancellationRules_def two_qubit_pairs_circuit_def
  by (simp only: QuantumCircuit.simps two_qubit_pairs_kept)

lemma cancel_loop_hh_cnot_pair:
  "cancel_loop 0 [HGate 0, HGate 0, CNOTGate 0 1, CNOTGate 0 1] = [CNOTGate 0 1, CNOTGate 0 1]"
  by code_simp

text \<open>
  C7 as amended. On a circuit of gates built by the gate classes (those of the kinds X,
  Y, Z, H, S, S_DAG, T, T_DAG have no parameters), the cancellation pass is a sequence of
  removals of a pair (i, j), i < j, and it removes a pair only when the two gates act on
  exactly the same qubit tuple, their kinds form one of the pairs (X,X), (Y,Y), (Z,Z),
  (H,H), (S,S_DAG), (T,T_DAG), and the parameters match. CNOT, CZ and SWAP gates are
  never removed: the result holds all of them, in their order, so that equal adjacent
  CNOT, CZ and SWAP pairs are not cancelled. The statement says nothing about which later
  gate j is paired with i and about the gates between the two.
\<close>

theorem cancellation_removes_single_qubit_pairs:
  assumes "list_all class_parameters (gates c)"
  shows "cancel_step\<^sup>*\<^sup>* (gates c) (gates (applyCancellationRules c))
   \<and> filter (\<lambda>g. getType g \<in> {GT_CNOT, GT_CZ, GT_SWAP}) (gates (applyCancellationRules c)) =
     filter (\<lambda>g. getType g \<in> {GT_CNOT, GT_CZ, GT_SWAP}) (gates c)"
proof -
  have s: "cancel_step\<^sup>*\<^sup>* (gates c) (cancel_loop 0 (gates c))"
    using assms by (rule cancel_loop_steps)
  from s cancel_steps_keep_others [OF s] show ?thesis
    by (simp add: applyCancellationRules_def)
qed

theorem cancellation_removes_single_qubit_pairs_witness:
  "list_all class_parameters [HGate 0, HGate 0, CNOTGate 0 1, CNOTGate 0 1]
   \<and> cancel_step\<^sup>*\<^sup>* [HGate 0, HGate 0, CNOTGate 0 1, CNOTGate 0 1]
        [CNOTGate 0 1, CNOTGate 0 1]
   \<and> filter (\<lambda>g. getType g \<in> {GT_CNOT, GT_CZ, GT_SWAP}) [CNOTGate 0 1, CNOTGate 0 1] =
     filter (\<lambda>g. getType g \<in> {GT_CNOT, GT_CZ, GT_SWAP})
       [HGate 0, HGate 0, CNOTGate 0 1, CNOTGate 0 1]"
proof -
  have a: "gates hh_cnot_pair_circuit = [HGate 0, HGate 0, CNOTGate 0 1, CNOTGate 0 1]"
    by (simp add: hh_cnot_pair_circuit_def)
  have b: "gates (applyCancellationRules hh_cnot_pair_circuit) = [CNOTGate 0 1, CNOTGate 0 1]"
    unfolding applyCancellationRules_def hh_cnot_pair_circuit_def
    by (simp only: QuantumCircuit.simps cancel_loop_hh_cnot_pair)
  have h: "list_all class_parameters [HGate 0, HGate 0, CNOTGate 0 1, CNOTGate 0 1]"
    by (simp add: class_parameters_def HGate_def CNOTGate_def SingleQubitGate_def
        TwoQubitGate_def)
  then have h': "list_all class_parameters (gates hh_cnot_pair_circuit)"
    unfolding a .
  show ?thesis
    using h cancellation_removes_single_qubit_pairs [OF h'] unfolding a b by (rule conjI)
qed

section \<open>Inserting a gate\<close>

lemma zero_matrix_not_unitary: "\<not> spec_unitary [[0, 0], [0, 0]]"
  by (simp add: spec_unitary_def upt_rec)

lemma small_matrix_wrong_dimension: "\<not> spec_dimension_ok small_custom_gate"
  by (simp add: spec_dimension_ok_def small_custom_gate_def CustomGate_def)

text \<open>
  C8 as stated fails: addGate reads the qubits of the gate and nothing else, and
  CustomGate's constructor has no body. A Custom gate on qubit 0 with the zero 2x2 matrix,
  which is not unitary, is appended to a one-qubit circuit, and so is one whose matrix is
  1x1.
\<close>

theorem non_unitary_custom_gate_accepted:
  "\<not> spec_unitary (getMatrix zero_custom_gate)
   \<and> addGate zero_custom_gate (QuantumCircuit_new 1) =
       Inr ((QuantumCircuit_new 1)\<lparr>gates := [zero_custom_gate]\<rparr>)
   \<and> \<not> spec_dimension_ok small_custom_gate
   \<and> addGate small_custom_gate (QuantumCircuit_new 1) =
       Inr ((QuantumCircuit_new 1)\<lparr>gates := [small_custom_gate]\<rparr>)"
proof -
  have "\<not> spec_unitary (getMatrix zero_custom_gate)"
    using zero_matrix_not_unitary by (simp add: zero_custom_gate_def CustomGate_def)
  moreover have "addGate zero_custom_gate (QuantumCircuit_new 1) =
       Inr ((QuantumCircuit_new 1)\<lparr>gates := [zero_custom_gate]\<rparr>)"
    by (simp add: addGate_def zero_custom_gate_def CustomGate_def QuantumCircuit_new_def)
  moreover have "addGate small_custom_gate (QuantumCircuit_new 1) =
       Inr ((QuantumCircuit_new 1)\<lparr>gates := [small_custom_gate]\<rparr>)"
    by (simp add: addGate_def small_custom_gate_def CustomGate_def QuantumCircuit_new_def)
  ultimately show ?thesis using small_matrix_wrong_dimension by simp
qed

text \<open>
  C8 as amended: addGate rejects a gate, with std::out_of_range and the circuit left as it
  was, exactly when one of the gate's qubit indices is not below num_qubits, and appends
  it otherwise; the matrix of a Custom gate plays no part in the decision.
\<close>

theorem addGate_checks_qubits_only:
  "addGate gate c =
     (if \<exists>qubit\<in>set (getQubits gate). qc_num_qubits c \<le> qubit then Inl out_of_range
      else Inr (c\<lparr>gates := gates c @ [gate]\<rparr>))
   \<and> addGate (gate\<lparr>getMatrix := m\<rparr>) c =
       map_sum id (\<lambda>c'. c\<lparr>gates := gates c @ [gate\<lparr>getMatrix := m\<rparr>]\<rparr>) (addGate gate c)"
  by (simp add: addGate_def list_ex_iff)

theorem addGate_checks_qubits_only_witness:
  "addGate (CustomGate ''zero'' [[0, 0], [0, 0]] [1] []) (QuantumCircuit_new 1) = Inl out_of_range
   \<and> addGate zero_custom_gate (QuantumCircuit_new 1) =
       Inr ((QuantumCircuit_new 1)\<lparr>gates := gates (QuantumCircuit_new 1) @ [zero_custom_gate]\<rparr>)"
proof -
  have q1: "getQubits (CustomGate ''zero'' [[0, 0], [0, 0]] [1] []) = [1]"
    by (simp add: CustomGate_def)
  have q0: "getQubits zero_custom_gate = [0]"
    by (simp add: zero_custom_gate_def CustomGate_def)
  have n: "qc_num_qubits (QuantumCircuit_new 1) = 1"
    by (simp add: QuantumCircuit_new_def)
  have out: "\<exists>qubit\<in>set (getQubits (CustomGate ''zero'' [[0, 0], [0, 0]] [1] [])).
               qc_num_qubits (QuantumCircuit_new 1) \<le> qubit"
    unfolding q1 n by simp
  have inside: "\<not> (\<exists>qubit\<in>set (getQubits zero_custom_gate).
               qc_num_qubits (QuantumCircuit_new 1) \<le> qubit)"
    unfolding q0 n by simp
  have a: "addGate (CustomGate ''zero'' [[0, 0], [0, 0]] [1] []) (QuantumCircuit_new 1) =
           Inl out_of_range"
    using addGate_checks_qubits_only
      [of "CustomGate ''zero'' [[0, 0], [0, 0]] [1] []" "QuantumCircuit_new 1", THEN conjunct1]
      out
    by (simp only: if_True)
  have b: "addGate zero_custom_gate (QuantumCircuit_new 1) =
       Inr ((QuantumCircuit_new 1)\<lparr>gates := gates (QuantumCircuit_new 1) @ [zero_custom_gate]\<rparr>)"
    using addGate_checks_qubits_only
      [of zero_custom_gate "QuantumCircuit_new 1", THEN conjunct1] inside
    by (simp only: if_False)
  from a b show ?thesis by (rule conjI)
qed

end
